theory Spec2Isabelle
  imports Main
begin

section \<open>bimmer\_connected.state: the state of a vehicle\<close>

text \<open>
  A shallow embedding of \<^verbatim>\<open>src/bimmer_connected/state.py\<close>. Every property of
  \<^verbatim>\<open>VehicleState\<close> is a function from the state to \<open>exn + 'a option\<close>: \<open>Inl\<close> is an
  exception leaving the property, \<open>Inr None\<close> is Python's \<^verbatim>\<open>None\<close>, \<open>Inr (Some v)\<close> any other
  value. Calls to the logger have no result; only the evaluation of their arguments, which
  can raise, is kept.
\<close>

subsection \<open>Exceptions\<close>

text \<open>
  The \<^verbatim>\<open>ValueError\<close>s that occur are told apart by their origin: the guard of
  \<^verbatim>\<open>backend_parameter\<close> raises \<^verbatim>\<open>ValueError('No data available!')\<close>, the enum classes raise
  it for a value that is no member, \<^verbatim>\<open>strptime\<close> for a string that does not fit the format,
  \<^verbatim>\<open>float\<close> and \<^verbatim>\<open>int\<close> for a string that is no number. \<^verbatim>\<open>KeyError\<close> carries the key and
  \<^verbatim>\<open>AttributeError\<close> the attribute that is missing.
\<close>

datatype value_error = No_data_available | Not_a_valid_member | Bad_time_data | Bad_number

datatype exn =
    ValueError value_error
  | KeyError string
  | TypeError
  | AttributeError string
  | OverflowError

subsection \<open>Decoded JSON\<close>

text \<open>
  What \<^verbatim>\<open>response.json()\<close> yields. The type \<open>'f\<close> is Python's \<^verbatim>\<open>float\<close>, which is not
  modelled: it is a parameter. A \<^verbatim>\<open>dict\<close> is an association list in insertion order, read
  with \<open>map_of\<close>.
\<close>

datatype 'f json =
    JNull
  | JBool bool
  | JInt int
  | JFloat 'f
  | JStr string
  | JArr "'f json list"
  | JObj "(string \<times> 'f json) list"

type_synonym 'f dict = "(string \<times> 'f json) list"

text \<open>\<^verbatim>\<open>d[k]\<close> on a dict.\<close>

definition dict_getitem :: "'f dict \<Rightarrow> string \<Rightarrow> exn + 'f json" where
  "dict_getitem d k = (case map_of d k of None \<Rightarrow> Inl (KeyError k) | Some v \<Rightarrow> Inr v)"

text \<open>\<^verbatim>\<open>k in d\<close> on a dict.\<close>

definition dict_contains :: "'f dict \<Rightarrow> string \<Rightarrow> bool" where
  "dict_contains d k = (map_of d k \<noteq> None)"

text \<open>
  \<^verbatim>\<open>v[k]\<close> with a string key on any decoded value: a dict looks the key up, every other
  value raises \<^verbatim>\<open>TypeError\<close> (a string or a list wants an integer index, the rest is not
  subscriptable).
\<close>

fun py_getitem :: "'f json \<Rightarrow> string \<Rightarrow> exn + 'f json" where
  "py_getitem (JObj d) k = dict_getitem d k"
| "py_getitem _ k = Inl TypeError"

text \<open>
  \<^verbatim>\<open>for s in v\<close>: a list gives its elements, a dict its keys, a string its characters;
  nothing else can be iterated.
\<close>

fun py_iter :: "'f json \<Rightarrow> exn + 'f json list" where
  "py_iter (JArr xs) = Inr xs"
| "py_iter (JObj d) = Inr (map (\<lambda>kv. JStr (fst kv)) d)"
| "py_iter (JStr s) = Inr (map (\<lambda>c. JStr [c]) s)"
| "py_iter _ = Inl TypeError"

subsection \<open>The builtins \<^verbatim>\<open>float\<close> and \<^verbatim>\<open>int\<close>, and \<^verbatim>\<open>strptime\<close> with a time zone\<close>

text \<open>
  The conversions between numbers and strings belong to Python, not to this module; they
  are parameters. \<open>float_of_int\<close> is \<open>None\<close> where \<^verbatim>\<open>float\<close> raises \<^verbatim>\<open>OverflowError\<close>,
  \<open>float_of_str\<close> and \<open>int_of_str\<close> are \<open>None\<close> where the string is no number.
  \<open>strptime_iso\<close> is \<^verbatim>\<open>datetime.datetime.strptime(s, "%Y-%m-%dT%H:%M:%S%z")\<close> on a string,
  with result type \<open>'t\<close>.
\<close>

record ('f, 't) builtins =
  float_of_int :: "int \<Rightarrow> 'f option"
  float_of_str :: "string \<Rightarrow> 'f option"
  int_of_float :: "'f \<Rightarrow> exn + int"
  int_of_str :: "string \<Rightarrow> int option"
  strptime_iso :: "string \<Rightarrow> exn + 't"

fun py_float :: "('f, 't) builtins \<Rightarrow> 'f json \<Rightarrow> exn + 'f" where
  "py_float py (JFloat x) = Inr x"
| "py_float py (JInt i) =
     (case float_of_int py i of None \<Rightarrow> Inl OverflowError | Some x \<Rightarrow> Inr x)"
| "py_float py (JBool b) =
     (case float_of_int py (if b then 1 else 0) of None \<Rightarrow> Inl OverflowError | Some x \<Rightarrow> Inr x)"
| "py_float py (JStr s) =
     (case float_of_str py s of None \<Rightarrow> Inl (ValueError Bad_number) | Some x \<Rightarrow> Inr x)"
| "py_float py _ = Inl TypeError"

fun py_int :: "('f, 't) builtins \<Rightarrow> 'f json \<Rightarrow> exn + int" where
  "py_int py (JInt i) = Inr i"
| "py_int py (JBool b) = Inr (if b then 1 else 0)"
| "py_int py (JFloat x) = int_of_float py x"
| "py_int py (JStr s) =
     (case int_of_str py s of None \<Rightarrow> Inl (ValueError Bad_number) | Some i \<Rightarrow> Inr i)"
| "py_int py _ = Inl TypeError"

subsection \<open>The enumerations\<close>

datatype LidState = CLOSED | OPEN | INTERMEDIATE

datatype LockState = LOCKED | SECURED | SELECTIVELOCKED | UNLOCKED

datatype ParkingLightState = LEFT | RIGHT | OFF

datatype ConditionBasedServiceStatus = OK | OVERDUE | PENDING

text \<open>
  Calling an enum class on a value looks the member with that value up and raises
  \<^verbatim>\<open>ValueError\<close> when there is none. The members' values are strings, so no other decoded
  value is a member.
\<close>

fun LidState_of :: "'f json \<Rightarrow> exn + LidState" where
  "LidState_of (JStr s) =
     (if s = ''CLOSED'' then Inr CLOSED
      else if s = ''OPEN'' then Inr OPEN
      else if s = ''INTERMEDIATE'' then Inr INTERMEDIATE
      else Inl (ValueError Not_a_valid_member))"
| "LidState_of _ = Inl (ValueError Not_a_valid_member)"

fun LockState_of :: "'f json \<Rightarrow> exn + LockState" where
  "LockState_of (JStr s) =
     (if s = ''LOCKED'' then Inr LOCKED
      else if s = ''SECURED'' then Inr SECURED
      else if s = ''SELECTIVELOCKED'' then Inr SELECTIVELOCKED
      else if s = ''UNLOCKED'' then Inr UNLOCKED
      else Inl (ValueError Not_a_valid_member))"
| "LockState_of _ = Inl (ValueError Not_a_valid_member)"

fun ParkingLightState_of :: "'f json \<Rightarrow> exn + ParkingLightState" where
  "ParkingLightState_of (JStr s) =
     (if s = ''LEFT'' then Inr LEFT
      else if s = ''RIGHT'' then Inr RIGHT
      else if s = ''OFF'' then Inr OFF
      else Inl (ValueError Not_a_valid_member))"
| "ParkingLightState_of _ = Inl (ValueError Not_a_valid_member)"

fun ConditionBasedServiceStatus_of :: "'f json \<Rightarrow> exn + ConditionBasedServiceStatus" where
  "ConditionBasedServiceStatus_of (JStr s) =
     (if s = ''OK'' then Inr OK
      else if s = ''OVERDUE'' then Inr OVERDUE
      else if s = ''PENDING'' then Inr PENDING
      else Inl (ValueError Not_a_valid_member))"
| "ConditionBasedServiceStatus_of _ = Inl (ValueError Not_a_valid_member)"

subsection \<open>\<^verbatim>\<open>strptime\<close> for the formats of the service dates\<close>

text \<open>
  \<^verbatim>\<open>strptime\<close> turns the format into a regular expression, matches it at the start of the
  string and refuses a match that leaves characters over. Of its directives the service
  dates need two: \<^verbatim>\<open>%Y\<close> is \<^verbatim>\<open>\d\d\d\d\<close> and \<^verbatim>\<open>%m\<close> is \<^verbatim>\<open>1[0-2]|0[1-9]|[1-9]\<close>, whose
  alternatives are tried in this order, the next one when the rest of the format does not
  match after the previous one. Characters are bytes here, so \<^verbatim>\<open>\d\<close> is an ASCII digit.
\<close>

datatype directive = Dir_Y | Dir_m | Lit char

definition digit_val :: "char \<Rightarrow> nat option" where
  "digit_val c = map_of
     [(CHR ''0'', 0), (CHR ''1'', 1), (CHR ''2'', 2), (CHR ''3'', 3), (CHR ''4'', 4),
      (CHR ''5'', 5), (CHR ''6'', 6), (CHR ''7'', 7), (CHR ''8'', 8), (CHR ''9'', 9)] c"

text \<open>\<^verbatim>\<open>\d\d\d\d\<close>: the number read and the rest of the string.\<close>

fun match_Y :: "string \<Rightarrow> (nat \<times> string) option" where
  "match_Y (a # b # c # d # rest) =
     (case (digit_val a, digit_val b, digit_val c, digit_val d) of
        (Some x, Some y, Some z, Some w) \<Rightarrow> Some (1000 * x + 100 * y + 10 * z + w, rest)
      | _ \<Rightarrow> None)"
| "match_Y _ = None"

text \<open>\<^verbatim>\<open>1[0-2]|0[1-9]|[1-9]\<close>: every way to match, in the order the alternatives are tried.\<close>

definition alt_1x :: "string \<Rightarrow> (nat \<times> string) list" where
  "alt_1x s = (case s of
       a # b # rest \<Rightarrow>
         (if a = CHR ''1'' then
            (case digit_val b of Some y \<Rightarrow> (if y \<le> 2 then [(10 + y, rest)] else []) | None \<Rightarrow> [])
          else [])
     | _ \<Rightarrow> [])"

definition alt_0x :: "string \<Rightarrow> (nat \<times> string) list" where
  "alt_0x s = (case s of
       a # b # rest \<Rightarrow>
         (if a = CHR ''0'' then
            (case digit_val b of Some y \<Rightarrow> (if 1 \<le> y then [(y, rest)] else []) | None \<Rightarrow> [])
          else [])
     | _ \<Rightarrow> [])"

definition alt_x :: "string \<Rightarrow> (nat \<times> string) list" where
  "alt_x s = (case s of
       a # rest \<Rightarrow> (case digit_val a of Some x \<Rightarrow> (if 1 \<le> x then [(x, rest)] else []) | None \<Rightarrow> [])
     | [] \<Rightarrow> [])"

definition match_m :: "string \<Rightarrow> (nat \<times> string) list" where
  "match_m s = alt_1x s @ alt_0x s @ alt_x s"

text \<open>
  The match of a format: the year and month found so far are carried along, the result is
  the first match in the order of the regular expression's search, with what is left of
  the string.
\<close>

fun first_match :: "('a \<Rightarrow> 'b option) \<Rightarrow> 'a list \<Rightarrow> 'b option" where
  "first_match f [] = None"
| "first_match f (x # xs) = (case f x of Some r \<Rightarrow> Some r | None \<Rightarrow> first_match f xs)"

fun re_match ::
  "directive list \<Rightarrow> nat option \<Rightarrow> nat option \<Rightarrow> string \<Rightarrow> (nat option \<times> nat option \<times> string) option"
where
  "re_match [] y m s = Some (y, m, s)"
| "re_match (Lit c # ds) y m s =
     (case s of [] \<Rightarrow> None | x # xs \<Rightarrow> if x = c then re_match ds y m xs else None)"
| "re_match (Dir_Y # ds) y m s =
     (case match_Y s of None \<Rightarrow> None | Some (y', rest) \<Rightarrow> re_match ds (Some y') m rest)"
| "re_match (Dir_m # ds) y m s =
     first_match (\<lambda>mr. re_match ds y (Some (fst mr)) (snd mr)) (match_m s)"

text \<open>A \<^verbatim>\<open>datetime\<close> without time zone.\<close>

record datetime =
  dt_year :: nat
  dt_month :: nat
  dt_day :: nat
  dt_hour :: nat
  dt_minute :: nat
  dt_second :: nat

text \<open>
  \<^verbatim>\<open>datetime.datetime.strptime(s, fmt)\<close>: no match and characters left over are
  \<^verbatim>\<open>ValueError\<close>s; the fields the format does not set default to 1 January 1900, midnight;
  a year 0 is refused by \<^verbatim>\<open>datetime\<close> (\<^verbatim>\<open>MINYEAR\<close> is 1), with a \<^verbatim>\<open>ValueError\<close> again.
\<close>

definition strptime :: "string \<Rightarrow> directive list \<Rightarrow> exn + datetime" where
  "strptime s fmt =
     (case re_match fmt None None s of
        None \<Rightarrow> Inl (ValueError Bad_time_data)
      | Some (y, m, rest) \<Rightarrow>
          if rest \<noteq> [] then Inl (ValueError Bad_time_data)
          else
            let year = (case y of None \<Rightarrow> 1900 | Some v \<Rightarrow> v);
                month = (case m of None \<Rightarrow> 1 | Some v \<Rightarrow> v)
            in if year < 1 then Inl (ValueError Bad_time_data)
               else Inr \<lparr>dt_year = year, dt_month = month, dt_day = 1,
                         dt_hour = 0, dt_minute = 0, dt_second = 0\<rparr>)"

text \<open>The formats \<^verbatim>\<open>'%Y-%m'\<close> and \<^verbatim>\<open>'%m.%Y'\<close>.\<close>

definition fmt_Y_m :: "directive list" where
  "fmt_Y_m = [Dir_Y, Lit CHR ''-'', Dir_m]"

definition fmt_m_Y :: "directive list" where
  "fmt_m_Y = [Dir_m, Lit CHR ''.'', Dir_Y]"

text \<open>
  \<^verbatim>\<open>ConditionBasedServiceReport._parse_date\<close> on a string: the loop over the formats
  returns at the first one that parses and passes over a \<^verbatim>\<open>ValueError\<close>; any other
  exception leaves the function.
\<close>

fun parse_date_loop :: "string \<Rightarrow> directive list list \<Rightarrow> exn + datetime option" where
  "parse_date_loop datestr [] = Inr None"
| "parse_date_loop datestr (date_format # formats) =
     (case strptime datestr date_format of
        Inr date \<Rightarrow> Inr (Some (date\<lparr>dt_day := 1\<rparr>))
      | Inl (ValueError v) \<Rightarrow> parse_date_loop datestr formats
      | Inl e \<Rightarrow> Inl e)"

definition parse_date :: "string \<Rightarrow> exn + datetime option" where
  "parse_date datestr = parse_date_loop datestr [fmt_Y_m, fmt_m_Y]"

subsection \<open>Lids and windows\<close>

definition LIDS :: "string list" where
  "LIDS = [''doorDriverFront'', ''doorPassengerFront'', ''doorDriverRear'', ''doorPassengerRear'',
           ''hood'', ''trunk'']"

definition WINDOWS :: "string list" where
  "WINDOWS = [''windowDriverFront'', ''windowPassengerFront'', ''windowDriverRear'',
              ''windowPassengerRear'']"

record Lid =
  name :: string
  state :: LidState

text \<open>\<^verbatim>\<open>Lid.__init__\<close>: the state is converted by the enum class, which can raise.\<close>

definition Lid_init :: "string \<Rightarrow> 'f json \<Rightarrow> exn + Lid" where
  "Lid_init n s =
     (case LidState_of s of Inl e \<Rightarrow> Inl e | Inr st \<Rightarrow> Inr \<lparr>name = n, state = st\<rparr>)"

definition is_closed :: "Lid \<Rightarrow> bool" where
  "is_closed lid = (state lid = CLOSED)"

text \<open>\<^verbatim>\<open>class Window(Lid): pass\<close> adds nothing to \<^verbatim>\<open>Lid\<close>.\<close>

type_synonym Window = Lid

definition Window_init :: "string \<Rightarrow> 'f json \<Rightarrow> exn + Window" where
  "Window_init = Lid_init"

subsection \<open>Condition based service reports\<close>

record 'f ConditionBasedServiceReport =
  due_date :: "datetime option"
  cbs_state :: ConditionBasedServiceStatus
  service_type :: "'f json"
  due_distance :: "int option"
  description :: "'f json"

text \<open>
  \<^verbatim>\<open>_parse_date\<close> as the constructor calls it, on whatever the backend sent: \<^verbatim>\<open>strptime\<close>
  raises \<^verbatim>\<open>TypeError\<close> for an argument that is no string, which \<^verbatim>\<open>_parse_date\<close> does not
  catch.
\<close>

fun parse_date_json :: "'f json \<Rightarrow> exn + datetime option" where
  "parse_date_json (JStr s) = parse_date s"
| "parse_date_json _ = Inl TypeError"

text \<open>
  \<^verbatim>\<open>ConditionBasedServiceReport.__init__\<close>, statement by statement. The field the source
  calls \<^verbatim>\<open>state\<close> is \<open>cbs_state\<close> here.
\<close>

definition ConditionBasedServiceReport_init ::
  "('f, 't) builtins \<Rightarrow> 'f json \<Rightarrow> exn + 'f ConditionBasedServiceReport"
where
  "ConditionBasedServiceReport_init py data_v =
     (case py_getitem data_v ''cbsDueDate'' of Inl e \<Rightarrow> Inl e | Inr dd \<Rightarrow>
      case parse_date_json dd of Inl e \<Rightarrow> Inl e | Inr due \<Rightarrow>
      case py_getitem data_v ''cbsState'' of Inl e \<Rightarrow> Inl e | Inr sv \<Rightarrow>
      case ConditionBasedServiceStatus_of sv of Inl e \<Rightarrow> Inl e | Inr st \<Rightarrow>
      case py_getitem data_v ''cbsType'' of Inl e \<Rightarrow> Inl e | Inr ty \<Rightarrow>
      case (case data_v of
              JObj d \<Rightarrow>
                if dict_contains d ''cbsRemainingMileage''
                then (case dict_getitem d ''cbsRemainingMileage'' of
                        Inl e \<Rightarrow> Inl e
                      | Inr rm \<Rightarrow> (case py_int py rm of Inl e \<Rightarrow> Inl e | Inr i \<Rightarrow> Inr (Some i)))
                else Inr None
            | _ \<Rightarrow> Inl TypeError) of Inl e \<Rightarrow> Inl e | Inr dist \<Rightarrow>
      case py_getitem data_v ''cbsDescription'' of Inl e \<Rightarrow> Inl e | Inr de \<Rightarrow>
      Inr \<lparr>due_date = due, cbs_state = st, service_type = ty, due_distance = dist,
           description = de\<rparr>)"

text \<open>
  Reading an attribute of a report by name, as \<^verbatim>\<open>cbs.status\<close> does: the constructor
  sets \<^verbatim>\<open>due_date\<close>, \<^verbatim>\<open>state\<close>, \<^verbatim>\<open>service_type\<close>, \<^verbatim>\<open>due_distance\<close> and \<^verbatim>\<open>description\<close>, the
  class defines no other data attribute, and a name that is not there raises
  \<^verbatim>\<open>AttributeError\<close>.
\<close>

datatype 'f attr_value =
    A_date "datetime option"
  | A_status ConditionBasedServiceStatus
  | A_json "'f json"
  | A_int "int option"

definition report_getattr :: "'f ConditionBasedServiceReport \<Rightarrow> string \<Rightarrow> exn + 'f attr_value" where
  "report_getattr r a =
     (if a = ''due_date'' then Inr (A_date (due_date r))
      else if a = ''state'' then Inr (A_status (cbs_state r))
      else if a = ''service_type'' then Inr (A_json (service_type r))
      else if a = ''due_distance'' then Inr (A_int (due_distance r))
      else if a = ''description'' then Inr (A_json (description r))
      else Inl (AttributeError a))"

subsection \<open>The state of a vehicle\<close>

text \<open>
  Of the vehicle only its \<^verbatim>\<open>vin\<close> is read (for a log message). The constructor stores
  whatever it is given: \<open>the_vehicle\<close> is \<open>None\<close> when that is \<^verbatim>\<open>None\<close>, as in the
  repository's unit tests, and reading \<^verbatim>\<open>vin\<close> from it raises \<^verbatim>\<open>AttributeError\<close>. The account
  is used by \<^verbatim>\<open>update_data\<close> alone, which talks to the server and is outside this model.
  \<open>attrs\<close> is \<^verbatim>\<open>self._attributes\<close>: \<open>None\<close> until data has been received, then the dict of
  the vehicle's status.
\<close>

record vehicle =
  vin :: string

record 'f VehicleState =
  the_vehicle :: "vehicle option"
  attrs :: "'f dict option"

definition VehicleState_init :: "vehicle option \<Rightarrow> 'f VehicleState" where
  "VehicleState_init v = \<lparr>the_vehicle = v, attrs = None\<rparr>"

text \<open>
  The decorator \<^verbatim>\<open>backend_parameter\<close>: without data it raises, and a \<^verbatim>\<open>KeyError\<close> of the
  decorated function becomes \<^verbatim>\<open>None\<close>; any other exception passes.
\<close>

text \<open>\<^verbatim>\<open>self._vehicle.vin\<close>.\<close>

definition vehicle_vin :: "'f VehicleState \<Rightarrow> exn + string" where
  "vehicle_vin self =
     (case the_vehicle self of None \<Rightarrow> Inl (AttributeError ''vin'') | Some v \<Rightarrow> Inr (vin v))"

definition backend_parameter ::
  "('f VehicleState \<Rightarrow> exn + 'a option) \<Rightarrow> 'f VehicleState \<Rightarrow> exn + 'a option"
where
  "backend_parameter func self =
     (if attrs self = None then Inl (ValueError No_data_available)
      else (case func self of
              Inl (KeyError k) \<Rightarrow> Inr None
            | Inl e \<Rightarrow> Inl e
            | Inr v \<Rightarrow> Inr v))"

text \<open>
  \<^verbatim>\<open>self._attributes[k]\<close> and \<^verbatim>\<open>k in self._attributes\<close> inside a decorated function. Were
  \<^verbatim>\<open>_attributes\<close> still \<^verbatim>\<open>None\<close> there, both would raise \<^verbatim>\<open>TypeError\<close>.
\<close>

definition attrs_getitem :: "'f VehicleState \<Rightarrow> string \<Rightarrow> exn + 'f json" where
  "attrs_getitem self k =
     (case attrs self of None \<Rightarrow> Inl TypeError | Some a \<Rightarrow> dict_getitem a k)"

definition attrs_contains :: "'f VehicleState \<Rightarrow> string \<Rightarrow> exn + bool" where
  "attrs_contains self k =
     (case attrs self of None \<Rightarrow> Inl TypeError | Some a \<Rightarrow> Inr (dict_contains a k))"

definition attributes :: "'f VehicleState \<Rightarrow> exn + 'f dict option" where
  "attributes = backend_parameter (\<lambda>self. Inr (attrs self))"

text \<open>\<^verbatim>\<open>_parse_datetime\<close>: \<^verbatim>\<open>strptime\<close> with the format \<^verbatim>\<open>"%Y-%m-%dT%H:%M:%S%z"\<close>.\<close>

fun parse_datetime :: "('f, 't) builtins \<Rightarrow> 'f json \<Rightarrow> exn + 't" where
  "parse_datetime py (JStr date_str) = strptime_iso py date_str"
| "parse_datetime py _ = Inl TypeError"

definition timestamp :: "('f, 't) builtins \<Rightarrow> 'f VehicleState \<Rightarrow> exn + 't option" where
  "timestamp py = backend_parameter (\<lambda>self.
     case attrs_getitem self ''updateTime'' of Inl e \<Rightarrow> Inl e | Inr v \<Rightarrow>
     case parse_datetime py v of Inl e \<Rightarrow> Inl e | Inr t \<Rightarrow> Inr (Some t))"

definition is_vehicle_tracking_enabled :: "'f VehicleState \<Rightarrow> exn + bool option" where
  "is_vehicle_tracking_enabled = backend_parameter (\<lambda>self.
     case attrs_getitem self ''position'' of Inl e \<Rightarrow> Inl e | Inr pos \<Rightarrow>
     case py_getitem pos ''status'' of Inl e \<Rightarrow> Inl e | Inr s \<Rightarrow>
     Inr (Some (s = JStr ''OK'')))"

text \<open>
  \<^verbatim>\<open>gps_position\<close> asks the decorated property \<^verbatim>\<open>is_vehicle_tracking_enabled\<close>, whose
  \<^verbatim>\<open>None\<close> counts as false in the \<^verbatim>\<open>if\<close>. The \<^verbatim>\<open>else\<close> branch evaluates the arguments of
  the warning, \<^verbatim>\<open>self._vehicle.vin\<close> and then \<^verbatim>\<open>pos['status']\<close>, before it returns \<^verbatim>\<open>None\<close>.
\<close>

definition gps_position :: "('f, 't) builtins \<Rightarrow> 'f VehicleState \<Rightarrow> exn + ('f \<times> 'f) option" where
  "gps_position py = backend_parameter (\<lambda>self.
     case attrs_getitem self ''position'' of Inl e \<Rightarrow> Inl e | Inr pos \<Rightarrow>
     case is_vehicle_tracking_enabled self of Inl e \<Rightarrow> Inl e | Inr enabled \<Rightarrow>
     if enabled = Some True then
       (case py_getitem pos ''lat'' of Inl e \<Rightarrow> Inl e | Inr la \<Rightarrow>
        case py_float py la of Inl e \<Rightarrow> Inl e | Inr x \<Rightarrow>
        case py_getitem pos ''lon'' of Inl e \<Rightarrow> Inl e | Inr lo \<Rightarrow>
        case py_float py lo of Inl e \<Rightarrow> Inl e | Inr y \<Rightarrow>
        Inr (Some (x, y)))
     else
       (case vehicle_vin self of Inl e \<Rightarrow> Inl e | Inr v \<Rightarrow>
        case py_getitem pos ''status'' of Inl e \<Rightarrow> Inl e | Inr s \<Rightarrow>
        Inr None))"

text \<open>The three numbers: \<^verbatim>\<open>float(self._attributes[key])\<close>.\<close>

definition float_attribute ::
  "('f, 't) builtins \<Rightarrow> string \<Rightarrow> 'f VehicleState \<Rightarrow> exn + 'f option" where
  "float_attribute py key self =
     (case attrs_getitem self key of Inl e \<Rightarrow> Inl e | Inr v \<Rightarrow>
      case py_float py v of Inl e \<Rightarrow> Inl e | Inr x \<Rightarrow> Inr (Some x))"

definition mileage :: "('f, 't) builtins \<Rightarrow> 'f VehicleState \<Rightarrow> exn + 'f option" where
  "mileage py = backend_parameter (float_attribute py ''mileage'')"

definition remaining_range_fuel :: "('f, 't) builtins \<Rightarrow> 'f VehicleState \<Rightarrow> exn + 'f option" where
  "remaining_range_fuel py = backend_parameter (float_attribute py ''remainingRangeFuel'')"

definition remaining_fuel :: "('f, 't) builtins \<Rightarrow> 'f VehicleState \<Rightarrow> exn + 'f option" where
  "remaining_fuel py = backend_parameter (float_attribute py ''remainingFuel'')"

text \<open>
  The loop of \<^verbatim>\<open>lids\<close> and \<^verbatim>\<open>windows\<close>: a name that is not a key is passed over, the
  others are appended to \<^verbatim>\<open>result\<close>.
\<close>

fun lids_loop :: "'f VehicleState \<Rightarrow> string list \<Rightarrow> Lid list \<Rightarrow> exn + Lid list" where
  "lids_loop self [] result = Inr result"
| "lids_loop self (lid # rest) result =
     (case attrs_contains self lid of Inl e \<Rightarrow> Inl e | Inr present \<Rightarrow>
      if present then
        (case attrs_getitem self lid of Inl e \<Rightarrow> Inl e | Inr v \<Rightarrow>
         case Lid_init lid v of Inl e \<Rightarrow> Inl e | Inr l \<Rightarrow>
         lids_loop self rest (result @ [l]))
      else lids_loop self rest result)"

definition lids :: "'f VehicleState \<Rightarrow> exn + Lid list option" where
  "lids = backend_parameter (\<lambda>self.
     case lids_loop self LIDS [] of Inl e \<Rightarrow> Inl e | Inr result \<Rightarrow> Inr (Some result))"

text \<open>
  The properties without decorator. Iterating over \<^verbatim>\<open>None\<close> raises \<^verbatim>\<open>TypeError\<close>.
\<close>

definition open_lids :: "'f VehicleState \<Rightarrow> exn + Lid list" where
  "open_lids self =
     (case lids self of
        Inl e \<Rightarrow> Inl e
      | Inr None \<Rightarrow> Inl TypeError
      | Inr (Some ls) \<Rightarrow> Inr (filter (\<lambda>lid. \<not> is_closed lid) ls))"

definition all_lids_closed :: "'f VehicleState \<Rightarrow> exn + bool" where
  "all_lids_closed self =
     (case open_lids self of Inl e \<Rightarrow> Inl e | Inr ls \<Rightarrow> Inr (length ls = 0))"

definition windows :: "'f VehicleState \<Rightarrow> exn + Window list option" where
  "windows = backend_parameter (\<lambda>self.
     case lids_loop self WINDOWS [] of Inl e \<Rightarrow> Inl e | Inr result \<Rightarrow> Inr (Some result))"

definition open_windows :: "'f VehicleState \<Rightarrow> exn + Window list" where
  "open_windows self =
     (case windows self of
        Inl e \<Rightarrow> Inl e
      | Inr None \<Rightarrow> Inl TypeError
      | Inr (Some ls) \<Rightarrow> Inr (filter (\<lambda>lid. \<not> is_closed lid) ls))"

definition all_windows_closed :: "'f VehicleState \<Rightarrow> exn + bool" where
  "all_windows_closed self =
     (case open_windows self of Inl e \<Rightarrow> Inl e | Inr ls \<Rightarrow> Inr (length ls = 0))"

definition door_lock_state :: "'f VehicleState \<Rightarrow> exn + LockState option" where
  "door_lock_state = backend_parameter (\<lambda>self.
     case attrs_getitem self ''doorLockState'' of Inl e \<Rightarrow> Inl e | Inr v \<Rightarrow>
     case LockState_of v of Inl e \<Rightarrow> Inl e | Inr l \<Rightarrow> Inr (Some l))"

text \<open>
  \<^verbatim>\<open>last_update_reason\<close> hands the value on as it is; a JSON \<^verbatim>\<open>null\<close> there is
  \<open>Some JNull\<close>.
\<close>

definition last_update_reason :: "'f VehicleState \<Rightarrow> exn + 'f json option" where
  "last_update_reason = backend_parameter (\<lambda>self.
     case attrs_getitem self ''updateReason'' of Inl e \<Rightarrow> Inl e | Inr v \<Rightarrow> Inr (Some v))"

text \<open>The list comprehension of \<^verbatim>\<open>condition_based_services\<close> stops at the first exception.\<close>

fun build_reports ::
  "('f, 't) builtins \<Rightarrow> 'f json list \<Rightarrow> exn + 'f ConditionBasedServiceReport list" where
  "build_reports py [] = Inr []"
| "build_reports py (s # ss) =
     (case ConditionBasedServiceReport_init py s of Inl e \<Rightarrow> Inl e | Inr r \<Rightarrow>
      case build_reports py ss of Inl e \<Rightarrow> Inl e | Inr rs \<Rightarrow> Inr (r # rs))"

definition condition_based_services ::
  "('f, 't) builtins \<Rightarrow> 'f VehicleState \<Rightarrow> exn + 'f ConditionBasedServiceReport list option" where
  "condition_based_services py = backend_parameter (\<lambda>self.
     case attrs_getitem self ''cbsData'' of Inl e \<Rightarrow> Inl e | Inr v \<Rightarrow>
     case py_iter v of Inl e \<Rightarrow> Inl e | Inr items \<Rightarrow>
     case build_reports py items of Inl e \<Rightarrow> Inl e | Inr rs \<Rightarrow> Inr (Some rs))"

text \<open>
  The loop of \<^verbatim>\<open>are_all_cbs_ok\<close> compares \<^verbatim>\<open>cbs.status\<close> with
  \<^verbatim>\<open>ConditionBasedServiceStatus.OK\<close>.
\<close>

fun are_all_cbs_ok_loop :: "'f ConditionBasedServiceReport list \<Rightarrow> exn + bool" where
  "are_all_cbs_ok_loop [] = Inr True"
| "are_all_cbs_ok_loop (cbs # rest) =
     (case report_getattr cbs ''status'' of Inl e \<Rightarrow> Inl e | Inr v \<Rightarrow>
      if v \<noteq> A_status OK then Inr False else are_all_cbs_ok_loop rest)"

definition are_all_cbs_ok :: "('f, 't) builtins \<Rightarrow> 'f VehicleState \<Rightarrow> exn + bool" where
  "are_all_cbs_ok py self =
     (case condition_based_services py self of
        Inl e \<Rightarrow> Inl e
      | Inr None \<Rightarrow> Inl TypeError
      | Inr (Some reports) \<Rightarrow> are_all_cbs_ok_loop reports)"

text \<open>
  \<^verbatim>\<open>parking_lights\<close> reads the dict through the decorated property \<^verbatim>\<open>attributes\<close>;
  subscripting \<^verbatim>\<open>None\<close> would raise \<^verbatim>\<open>TypeError\<close>.
\<close>

definition parking_lights :: "'f VehicleState \<Rightarrow> exn + ParkingLightState option" where
  "parking_lights = backend_parameter (\<lambda>self.
     case attributes self of Inl e \<Rightarrow> Inl e | Inr None \<Rightarrow> Inl TypeError | Inr (Some a) \<Rightarrow>
     case dict_getitem a ''parkingLight'' of Inl e \<Rightarrow> Inl e | Inr v \<Rightarrow>
     case ParkingLightState_of v of Inl e \<Rightarrow> Inl e | Inr l \<Rightarrow> Inr (Some l))"

definition are_parking_lights_on :: "'f VehicleState \<Rightarrow> exn + bool option" where
  "are_parking_lights_on self =
     (case parking_lights self of
        Inl e \<Rightarrow> Inl e
      | Inr None \<Rightarrow> Inr None
      | Inr (Some lights) \<Rightarrow> Inr (Some (lights \<noteq> OFF)))"

subsection \<open>Concrete inputs\<close>

text \<open>
  A stand-in for the builtins, with integers for the floats and the string itself for the
  parsed time stamp, and a vehicle, for evaluating the properties on concrete data, on a state
  with and without a vehicle.
\<close>

definition toy_builtins :: "(int, string) builtins" where
  "toy_builtins = \<lparr>float_of_int = Some, float_of_str = (\<lambda>s. None), int_of_float = Inr,
                    int_of_str = (\<lambda>s. None), strptime_iso = Inr\<rparr>"

definition some_vehicle :: vehicle where
  "some_vehicle = \<lparr>vin = ''WBA0000''\<rparr>"

definition state_with :: "int dict \<Rightarrow> int VehicleState" where
  "state_with a = \<lparr>the_vehicle = Some some_vehicle, attrs = Some a\<rparr>"

definition state_without_vehicle :: "int dict \<Rightarrow> int VehicleState" where
  "state_without_vehicle a = \<lparr>the_vehicle = None, attrs = Some a\<rparr>"

definition fresh_state :: "int VehicleState" where
  "fresh_state = VehicleState_init (Some some_vehicle)"

definition tracked_position :: "int dict" where
  "tracked_position =
     [(''position'', JObj [(''lat'', JInt (-34)), (''lon'', JInt 25), (''status'', JStr ''OK'')])]"

definition untracked_position :: "int dict" where
  "untracked_position =
     [(''position'', JObj [(''lat'', JInt (-34)), (''lon'', JInt 25),
                           (''status'', JStr ''OK_DISABLED'')])]"

definition bad_literals :: "int dict" where
  "bad_literals = [(''doorLockState'', JStr ''AJAR''), (''parkingLight'', JStr ''BOTH'')]"

definition hood_open :: "int dict" where
  "hood_open = [(''hood'', JStr ''OPEN''), (''trunk'', JStr ''CLOSED''),
                (''windowDriverFront'', JStr ''CLOSED'')]"

definition left_light :: "int dict" where
  "left_light = [(''parkingLight'', JStr ''LEFT'')]"

definition one_ok_service :: "int dict" where
  "one_ok_service =
     [(''cbsData'', JArr [JObj [(''cbsDueDate'', JStr ''2018-02''), (''cbsState'', JStr ''OK''),
                                (''cbsType'', JStr ''OIL''),
                                (''cbsDescription'', JStr ''Next oil change'')]])]"

definition no_services :: "int dict" where
  "no_services = [(''cbsData'', JArr [])]"

definition position_without_status :: "int dict" where
  "position_without_status = [(''position'', JObj [(''lat'', JInt (-34)), (''lon'', JInt 25)])]"

definition position_without_lat :: "int dict" where
  "position_without_lat = [(''position'', JObj [(''lon'', JInt 25), (''status'', JStr ''OK'')])]"

definition position_without_lon :: "int dict" where
  "position_without_lon = [(''position'', JObj [(''lat'', JInt (-34)), (''status'', JStr ''OK'')])]"

definition position_lat_no_number :: "int dict" where
  "position_lat_no_number =
     [(''position'', JObj [(''lat'', JStr ''north''), (''status'', JStr ''OK'')])]"

definition service_without_due_date :: "int dict" where
  "service_without_due_date =
     [(''cbsData'', JArr [JObj [(''cbsState'', JStr ''OK''), (''cbsType'', JStr ''OIL''),
                                (''cbsDescription'', JStr ''Next oil change'')]])]"

definition service_without_state :: "int dict" where
  "service_without_state =
     [(''cbsData'', JArr [JObj [(''cbsDueDate'', JStr ''2018-02''), (''cbsType'', JStr ''OIL''),
                                (''cbsDescription'', JStr ''Next oil change'')]])]"

definition service_without_type :: "int dict" where
  "service_without_type =
     [(''cbsData'', JArr [JObj [(''cbsDueDate'', JStr ''2018-02''), (''cbsState'', JStr ''OK''),
                                (''cbsDescription'', JStr ''Next oil change'')]])]"

definition service_without_description :: "int dict" where
  "service_without_description =
     [(''cbsData'', JArr [JObj [(''cbsDueDate'', JStr ''2018-02''), (''cbsState'', JStr ''OK''),
                                (''cbsType'', JStr ''OIL''),
                                (''cbsRemainingMileage'', JInt 12000)]])]"

subsection \<open>The lids that are present\<close>

text \<open>
  What the specification says of \<^verbatim>\<open>lids\<close> and \<^verbatim>\<open>windows\<close>: for each name of the fixed list
  that is a key of the data, in the order of that list, a lid with that name and the state
  the data gives.
\<close>

definition valid_lid_states :: "'f dict \<Rightarrow> string list \<Rightarrow> bool" where
  "valid_lid_states a names =
     list_all (\<lambda>n. case map_of a n of
                      None \<Rightarrow> True
                    | Some v \<Rightarrow> (case LidState_of v of Inl e \<Rightarrow> False | Inr st \<Rightarrow> True)) names"

definition present_lids :: "'f dict \<Rightarrow> string list \<Rightarrow> Lid list" where
  "present_lids a names =
     concat (map (\<lambda>n. case map_of a n of
                         None \<Rightarrow> []
                       | Some v \<Rightarrow> (case LidState_of v of
                                      Inl e \<Rightarrow> []
                                    | Inr st \<Rightarrow> [\<lparr>name = n, state = st\<rparr>])) names)"

subsection \<open>Dates as text\<close>

text \<open>
  The two spellings of a month that the backend uses, \<^verbatim>\<open>YYYY-MM\<close> and \<^verbatim>\<open>MM.YYYY\<close>, written
  with four digits for the year and two for the month, and the first day of a month as a
  \<^verbatim>\<open>datetime\<close>.
\<close>

definition digit_char :: "nat \<Rightarrow> char" where
  "digit_char n = (''0123456789'' ! (n mod 10))"

definition year_text :: "nat \<Rightarrow> string" where
  "year_text y =
     [digit_char (y div 1000), digit_char (y div 100), digit_char (y div 10), digit_char y]"

definition month_text :: "nat \<Rightarrow> string" where
  "month_text m = [digit_char (m div 10), digit_char m]"

definition first_of_month :: "nat \<Rightarrow> nat \<Rightarrow> datetime" where
  "first_of_month y m =
     \<lparr>dt_year = y, dt_month = m, dt_day = 1, dt_hour = 0, dt_minute = 0, dt_second = 0\<rparr>"

section \<open>Properties\<close>

subsection \<open>The decorator\<close>

lemma backend_parameter_no_data:
  "attrs self = None \<Longrightarrow> backend_parameter func self = Inl (ValueError No_data_available)"
  by (simp add: backend_parameter_def)

lemma backend_parameter_data:
  "attrs self = Some a \<Longrightarrow>
   backend_parameter func self =
     (case func self of Inl (KeyError k) \<Rightarrow> Inr None | Inl e \<Rightarrow> Inl e | Inr v \<Rightarrow> Inr v)"
  by (simp add: backend_parameter_def)

lemma attrs_getitem_data:
  "attrs self = Some a \<Longrightarrow>
   attrs_getitem self k = (case map_of a k of None \<Rightarrow> Inl (KeyError k) | Some v \<Rightarrow> Inr v)"
  by (simp add: attrs_getitem_def dict_getitem_def)

lemma fresh_state_attrs: "attrs fresh_state = None"
  by (simp add: fresh_state_def VehicleState_init_def)

lemma state_with_attrs: "attrs (state_with a) = Some a"
  by (simp add: state_with_def)

lemma state_without_vehicle_attrs: "attrs (state_without_vehicle a) = Some a"
  by (simp add: state_without_vehicle_def)

lemma is_vehicle_tracking_enabled_data:
  "attrs self = Some a \<Longrightarrow>
   is_vehicle_tracking_enabled self =
     (case map_of a ''position'' of
        None \<Rightarrow> Inr None
      | Some pos \<Rightarrow>
          (case py_getitem pos ''status'' of
             Inl (KeyError k) \<Rightarrow> Inr None
           | Inl e \<Rightarrow> Inl e
           | Inr s \<Rightarrow> Inr (Some (s = JStr ''OK''))))"
  by (simp add: is_vehicle_tracking_enabled_def backend_parameter_data attrs_getitem_data
      split: option.splits sum.splits exn.splits)

lemma py_float_no_KeyError: "py_float py v \<noteq> Inl (KeyError k)"
  by (cases v) (simp_all split: option.splits)

text \<open>
  C1. Every decorated property (\<^verbatim>\<open>timestamp\<close>, \<^verbatim>\<open>gps_position\<close>,
  \<^verbatim>\<open>is_vehicle_tracking_enabled\<close>, \<^verbatim>\<open>mileage\<close>, \<^verbatim>\<open>remaining_range_fuel\<close>, \<^verbatim>\<open>remaining_fuel\<close>,
  \<^verbatim>\<open>lids\<close>, \<^verbatim>\<open>windows\<close>, \<^verbatim>\<open>door_lock_state\<close>, \<^verbatim>\<open>last_update_reason\<close>,
  \<^verbatim>\<open>condition_based_services\<close>, \<^verbatim>\<open>parking_lights\<close>, \<^verbatim>\<open>attributes\<close>) raises the
  \<^verbatim>\<open>ValueError\<close> "No data available!" when \<^verbatim>\<open>_attributes\<close> is \<^verbatim>\<open>None\<close>, as it is after the
  constructor.
\<close>

theorem guarded_accessors_no_data:
  assumes "attrs self = None"
  shows "timestamp py self = Inl (ValueError No_data_available)
       \<and> gps_position py self = Inl (ValueError No_data_available)
       \<and> is_vehicle_tracking_enabled self = Inl (ValueError No_data_available)
       \<and> mileage py self = Inl (ValueError No_data_available)
       \<and> remaining_range_fuel py self = Inl (ValueError No_data_available)
       \<and> remaining_fuel py self = Inl (ValueError No_data_available)
       \<and> lids self = Inl (ValueError No_data_available)
       \<and> windows self = Inl (ValueError No_data_available)
       \<and> door_lock_state self = Inl (ValueError No_data_available)
       \<and> last_update_reason self = Inl (ValueError No_data_available)
       \<and> condition_based_services py self = Inl (ValueError No_data_available)
       \<and> parking_lights self = Inl (ValueError No_data_available)
       \<and> attributes self = Inl (ValueError No_data_available)"
  unfolding timestamp_def gps_position_def is_vehicle_tracking_enabled_def mileage_def
    remaining_range_fuel_def remaining_fuel_def lids_def windows_def door_lock_state_def
    last_update_reason_def condition_based_services_def parking_lights_def attributes_def
  using assms by (simp add: backend_parameter_no_data)

theorem guarded_accessors_no_data_witness:
  "attrs (VehicleState_init None :: int VehicleState) = None
   \<and> mileage toy_builtins (VehicleState_init None) = Inl (ValueError No_data_available)
   \<and> lids (VehicleState_init None :: int VehicleState) = Inl (ValueError No_data_available)
   \<and> attributes (VehicleState_init None :: int VehicleState)
       = Inl (ValueError No_data_available)"
proof -
  have h: "attrs (VehicleState_init None :: int VehicleState) = None"
    by (simp add: VehicleState_init_def)
  show ?thesis
    using h guarded_accessors_no_data [OF h, of toy_builtins] by simp
qed

text \<open>
  C10. The properties without decorator (\<^verbatim>\<open>open_lids\<close>, \<^verbatim>\<open>all_lids_closed\<close>,
  \<^verbatim>\<open>open_windows\<close>, \<^verbatim>\<open>all_windows_closed\<close>, \<^verbatim>\<open>are_all_cbs_ok\<close>, \<^verbatim>\<open>are_parking_lights_on\<close>)
  raise the same \<^verbatim>\<open>ValueError\<close> when \<^verbatim>\<open>_attributes\<close> is \<^verbatim>\<open>None\<close>: each starts by reading a
  decorated property.
\<close>

theorem derived_properties_no_data:
  assumes "attrs self = None"
  shows "open_lids self = Inl (ValueError No_data_available)
       \<and> all_lids_closed self = Inl (ValueError No_data_available)
       \<and> open_windows self = Inl (ValueError No_data_available)
       \<and> all_windows_closed self = Inl (ValueError No_data_available)
       \<and> are_all_cbs_ok py self = Inl (ValueError No_data_available)
       \<and> are_parking_lights_on self = Inl (ValueError No_data_available)"
proof -
  have "lids self = Inl (ValueError No_data_available)"
    and "windows self = Inl (ValueError No_data_available)"
    and "condition_based_services py self = Inl (ValueError No_data_available)"
    and "parking_lights self = Inl (ValueError No_data_available)"
    using assms
    by (simp_all add: lids_def windows_def condition_based_services_def parking_lights_def
        backend_parameter_no_data)
  then show ?thesis
    by (simp add: open_lids_def all_lids_closed_def open_windows_def all_windows_closed_def
        are_all_cbs_ok_def are_parking_lights_on_def)
qed

theorem derived_properties_no_data_witness:
  "attrs fresh_state = None
   \<and> open_lids fresh_state = Inl (ValueError No_data_available)
   \<and> all_windows_closed fresh_state = Inl (ValueError No_data_available)
   \<and> are_all_cbs_ok toy_builtins fresh_state = Inl (ValueError No_data_available)
   \<and> are_parking_lights_on fresh_state = Inl (ValueError No_data_available)"
  using fresh_state_attrs derived_properties_no_data [OF fresh_state_attrs, of toy_builtins]
  by simp

subsection \<open>Position\<close>

text \<open>
  C5, as the code has it. With data that holds a position object,
  \<^verbatim>\<open>is_vehicle_tracking_enabled\<close> is true exactly when \<^verbatim>\<open>position.status\<close> is the string "OK"
  (false for any other status that is there, \<^verbatim>\<open>None\<close> when there is none). When the status
  is "OK", \<^verbatim>\<open>gps_position\<close> is the pair of \<^verbatim>\<open>float(lat)\<close> and \<^verbatim>\<open>float(lon)\<close> if both are there
  and convert; it is \<^verbatim>\<open>None\<close> if \<^verbatim>\<open>lat\<close>, or after a \<^verbatim>\<open>lat\<close> that converts \<^verbatim>\<open>lon\<close>, is
  missing; and the exception of the first conversion that fails leaves it. When the status
  is anything else or missing, \<^verbatim>\<open>gps_position\<close> is \<^verbatim>\<open>None\<close> on a state that has a vehicle.
\<close>

theorem position_accessors:
  assumes "attrs self = Some a" and "map_of a ''position'' = Some (JObj p)"
  shows "(is_vehicle_tracking_enabled self = Inr (Some True)
            \<longleftrightarrow> map_of p ''status'' = Some (JStr ''OK''))
     \<and> (\<forall>s. map_of p ''status'' = Some s \<longrightarrow>
            is_vehicle_tracking_enabled self = Inr (Some (s = JStr ''OK'')))
     \<and> (map_of p ''status'' = None \<longrightarrow> is_vehicle_tracking_enabled self = Inr None)
     \<and> (\<forall>la lo x y. map_of p ''status'' = Some (JStr ''OK'')
            \<and> map_of p ''lat'' = Some la \<and> map_of p ''lon'' = Some lo
            \<and> py_float py la = Inr x \<and> py_float py lo = Inr y \<longrightarrow>
            gps_position py self = Inr (Some (x, y)))
     \<and> (map_of p ''status'' = Some (JStr ''OK'') \<longrightarrow>
            gps_position py self =
              (case map_of p ''lat'' of
                 None \<Rightarrow> Inr None
               | Some la \<Rightarrow>
                   (case py_float py la of
                      Inl e \<Rightarrow> Inl e
                    | Inr x \<Rightarrow>
                        (case map_of p ''lon'' of
                           None \<Rightarrow> Inr None
                         | Some lo \<Rightarrow>
                             (case py_float py lo of
                                Inl e \<Rightarrow> Inl e
                              | Inr y \<Rightarrow> Inr (Some (x, y)))))))
     \<and> (map_of p ''status'' \<noteq> Some (JStr ''OK'') \<and> the_vehicle self \<noteq> None \<longrightarrow>
            gps_position py self = Inr None)"
proof -
  note base = backend_parameter_data[OF assms(1)] attrs_getitem_data[OF assms(1)]
  have en: "is_vehicle_tracking_enabled self =
      (case map_of p ''status'' of None \<Rightarrow> Inr None | Some s \<Rightarrow> Inr (Some (s = JStr ''OK'')))"
    using assms
    by (simp add: is_vehicle_tracking_enabled_data dict_getitem_def split: option.splits)
  have 1: "is_vehicle_tracking_enabled self = Inr (Some True)
      \<longleftrightarrow> map_of p ''status'' = Some (JStr ''OK'')"
    by (simp add: en split: option.splits)
  have 2: "\<forall>s. map_of p ''status'' = Some s \<longrightarrow>
      is_vehicle_tracking_enabled self = Inr (Some (s = JStr ''OK''))"
    by (simp add: en)
  have 3: "map_of p ''status'' = None \<longrightarrow> is_vehicle_tracking_enabled self = Inr None"
    by (simp add: en)
  have 4: "\<forall>la lo x y. map_of p ''status'' = Some (JStr ''OK'')
            \<and> map_of p ''lat'' = Some la \<and> map_of p ''lon'' = Some lo
            \<and> py_float py la = Inr x \<and> py_float py lo = Inr y \<longrightarrow>
            gps_position py self = Inr (Some (x, y))"
    using assms by (simp add: gps_position_def base en dict_getitem_def)
  have 5: "gps_position py self =
              (case map_of p ''lat'' of
                 None \<Rightarrow> Inr None
               | Some la \<Rightarrow>
                   (case py_float py la of
                      Inl e \<Rightarrow> Inl e
                    | Inr x \<Rightarrow>
                        (case map_of p ''lon'' of
                           None \<Rightarrow> Inr None
                         | Some lo \<Rightarrow>
                             (case py_float py lo of
                                Inl e \<Rightarrow> Inl e
                              | Inr y \<Rightarrow> Inr (Some (x, y))))))"
    if ok: "map_of p ''status'' = Some (JStr ''OK'')"
  proof (cases "map_of p ''lat''")
    case None
    then show ?thesis
      using assms ok by (simp add: gps_position_def base en dict_getitem_def)
  next
    case (Some la)
    note la = this
    show ?thesis
    proof (cases "py_float py la")
      case (Inl e)
      then show ?thesis
        using assms ok la py_float_no_KeyError[of py la]
        by (cases e) (simp_all add: gps_position_def base en dict_getitem_def)
    next
      case (Inr x)
      note x = this
      show ?thesis
      proof (cases "map_of p ''lon''")
        case None
        then show ?thesis
          using assms ok la x by (simp add: gps_position_def base en dict_getitem_def)
      next
        case (Some lo)
        note lo = this
        show ?thesis
        proof (cases "py_float py lo")
          case (Inl e)
          then show ?thesis
            using assms ok la x lo py_float_no_KeyError[of py lo]
            by (cases e) (simp_all add: gps_position_def base en dict_getitem_def)
        next
          case (Inr y)
          then show ?thesis
            using assms ok la x lo by (simp add: gps_position_def base en dict_getitem_def)
        qed
      qed
    qed
  qed
  have 6: "map_of p ''status'' \<noteq> Some (JStr ''OK'') \<and> the_vehicle self \<noteq> None \<longrightarrow>
      gps_position py self = Inr None"
    using assms
    by (auto simp: gps_position_def base en dict_getitem_def vehicle_vin_def
        split: option.splits)
  show ?thesis using 1 2 3 4 5 6 by simp
qed

theorem position_accessors_witness:
  "is_vehicle_tracking_enabled (state_with tracked_position) = Inr (Some True)
   \<and> gps_position toy_builtins (state_with tracked_position) = Inr (Some (-34, 25))
   \<and> is_vehicle_tracking_enabled (state_with untracked_position) = Inr (Some False)
   \<and> gps_position toy_builtins (state_with untracked_position) = Inr None
   \<and> is_vehicle_tracking_enabled (state_with position_without_status) = Inr None
   \<and> gps_position toy_builtins (state_with position_without_status) = Inr None"
proof -
  have t: "map_of tracked_position ''position'' =
      Some (JObj [(''lat'', JInt (-34)), (''lon'', JInt 25), (''status'', JStr ''OK'')])"
    by (simp add: tracked_position_def)
  have u: "map_of untracked_position ''position'' =
      Some (JObj [(''lat'', JInt (-34)), (''lon'', JInt 25), (''status'', JStr ''OK_DISABLED'')])"
    by (simp add: untracked_position_def)
  have n: "map_of position_without_status ''position'' =
      Some (JObj [(''lat'', JInt (-34)), (''lon'', JInt 25)])"
    by (simp add: position_without_status_def)
  have v: "the_vehicle (state_with b) \<noteq> None" for b
    by (simp add: state_with_def)
  have 1: "is_vehicle_tracking_enabled (state_with tracked_position) = Inr (Some True)
    \<and> gps_position toy_builtins (state_with tracked_position) = Inr (Some (-34, 25))"
    using position_accessors [OF state_with_attrs t, of toy_builtins]
    by (simp add: toy_builtins_def)
  have 2: "is_vehicle_tracking_enabled (state_with untracked_position) = Inr (Some False)
    \<and> gps_position toy_builtins (state_with untracked_position) = Inr None"
    using position_accessors [OF state_with_attrs u, of toy_builtins] v
    by simp
  have 3: "is_vehicle_tracking_enabled (state_with position_without_status) = Inr None
    \<and> gps_position toy_builtins (state_with position_without_status) = Inr None"
    using position_accessors [OF state_with_attrs n, of toy_builtins] v
    by simp
  show ?thesis using 1 2 3 by simp
qed

text \<open>
  C5 as it is stated fails in two ways. With the status "OK" and no \<^verbatim>\<open>lat\<close>, \<^verbatim>\<open>gps_position\<close>
  is \<^verbatim>\<open>None\<close>, not a pair. On a state built without a vehicle, as the unit tests build it,
  a status other than "OK" makes the warning read \<^verbatim>\<open>vin\<close> from \<^verbatim>\<open>None\<close>, and
  \<^verbatim>\<open>AttributeError\<close> leaves \<^verbatim>\<open>gps_position\<close>.
\<close>

theorem position_accessors_counterexample:
  "attrs (state_with position_without_lat) = Some position_without_lat
   \<and> map_of position_without_lat ''position''
        = Some (JObj [(''lon'', JInt 25), (''status'', JStr ''OK'')])
   \<and> map_of [(''lon'', JInt 25), (''status'', JStr ''OK'' :: int json)] ''status''
        = Some (JStr ''OK'')
   \<and> gps_position toy_builtins (state_with position_without_lat) = Inr None
   \<and> attrs (state_without_vehicle untracked_position) = Some untracked_position
   \<and> map_of untracked_position ''position''
        = Some (JObj [(''lat'', JInt (-34)), (''lon'', JInt 25),
                      (''status'', JStr ''OK_DISABLED'')])
   \<and> gps_position toy_builtins (state_without_vehicle untracked_position)
        = Inl (AttributeError ''vin'')"
  by (simp add: state_with_def state_without_vehicle_def position_without_lat_def
      untracked_position_def gps_position_def is_vehicle_tracking_enabled_def
      backend_parameter_def attrs_getitem_def dict_getitem_def vehicle_vin_def)

subsection \<open>Mileage on an empty mapping\<close>

text \<open>
  C3. The claim: with an empty but present mapping, \<^verbatim>\<open>mileage\<close> raises the same no-data
  \<^verbatim>\<open>ValueError\<close> as with \<^verbatim>\<open>_attributes = None\<close>. The code at that input: the guard passes,
  \<^verbatim>\<open>self._attributes['mileage']\<close> raises \<^verbatim>\<open>KeyError\<close>, the decorator returns \<^verbatim>\<open>None\<close>; only the
  state that never received data raises.
\<close>

theorem mileage_empty_mapping:
  "mileage py \<lparr>the_vehicle = v, attrs = Some []\<rparr> = Inr None
   \<and> mileage py (VehicleState_init v) = Inl (ValueError No_data_available)"
  by (simp add: mileage_def float_attribute_def backend_parameter_def attrs_getitem_def
      dict_getitem_def VehicleState_init_def)

subsection \<open>Condition based services\<close>

lemma are_all_cbs_ok_loop_Cons: "are_all_cbs_ok_loop (r # rs) = Inl (AttributeError ''status'')"
  by (simp add: report_getattr_def)

lemma are_all_cbs_ok_nonempty:
  "condition_based_services py self = Inr (Some (r # rs)) \<Longrightarrow>
   are_all_cbs_ok py self = Inl (AttributeError ''status'')"
  by (simp add: are_all_cbs_ok_def report_getattr_def)

lemma parse_date_2018_02:
  "parse_date ''2018-02'' =
     Inr (Some \<lparr>dt_year = 2018, dt_month = 2, dt_day = 1, dt_hour = 0, dt_minute = 0,
                 dt_second = 0\<rparr>)"
  by (simp add: parse_date_def strptime_def fmt_Y_m_def match_m_def alt_1x_def alt_0x_def
      alt_x_def digit_val_def)

lemma one_ok_service_reports:
  "condition_based_services toy_builtins (state_with one_ok_service) =
     Inr (Some [\<lparr>due_date = Some \<lparr>dt_year = 2018, dt_month = 2, dt_day = 1, dt_hour = 0,
                                   dt_minute = 0, dt_second = 0\<rparr>,
                 cbs_state = OK, service_type = JStr ''OIL'', due_distance = None,
                 description = JStr ''Next oil change''\<rparr>])"
  by (simp add: condition_based_services_def backend_parameter_def state_with_def
      one_ok_service_def attrs_getitem_def dict_getitem_def ConditionBasedServiceReport_init_def
      dict_contains_def parse_date_2018_02)

text \<open>
  C8. The claim: \<^verbatim>\<open>are_all_cbs_ok\<close> is true exactly when every report has the state OK. The
  code on an empty list of services answers \<^verbatim>\<open>True\<close>; on a list with one service whose
  state is OK the loop reads \<^verbatim>\<open>cbs.status\<close>, an attribute that a report does not have, and
  \<^verbatim>\<open>AttributeError\<close> leaves the property.
\<close>

theorem are_all_cbs_ok_one_ok_service:
  "are_all_cbs_ok toy_builtins (state_with no_services) = Inr True
   \<and> are_all_cbs_ok toy_builtins (state_with one_ok_service) = Inl (AttributeError ''status'')"
proof -
  have "condition_based_services toy_builtins (state_with no_services) = Inr (Some [])"
    by (simp add: condition_based_services_def backend_parameter_def state_with_def
        no_services_def attrs_getitem_def dict_getitem_def)
  then have "are_all_cbs_ok toy_builtins (state_with no_services) = Inr True"
    by (simp add: are_all_cbs_ok_def)
  moreover have "are_all_cbs_ok toy_builtins (state_with one_ok_service)
      = Inl (AttributeError ''status'')"
    by (simp add: are_all_cbs_ok_def one_ok_service_reports report_getattr_def)
  ultimately show ?thesis by simp
qed

subsection \<open>Enum literals\<close>

text \<open>
  C6. With data whose \<^verbatim>\<open>doorLockState\<close> is a string that is none of LOCKED, SECURED,
  SELECTIVELOCKED, UNLOCKED, \<^verbatim>\<open>door_lock_state\<close> raises the \<^verbatim>\<open>ValueError\<close> of the enum class;
  with a \<^verbatim>\<open>parkingLight\<close> that is none of LEFT, RIGHT, OFF, \<^verbatim>\<open>parking_lights\<close> does. The
  decorator does not turn it into \<^verbatim>\<open>None\<close>.
\<close>

theorem invalid_literal_raises:
  assumes "attrs self = Some a"
  shows "(map_of a ''doorLockState'' = Some (JStr s)
            \<and> s \<notin> {''LOCKED'', ''SECURED'', ''SELECTIVELOCKED'', ''UNLOCKED''}
          \<longrightarrow> door_lock_state self = Inl (ValueError Not_a_valid_member))
       \<and> (map_of a ''parkingLight'' = Some (JStr s') \<and> s' \<notin> {''LEFT'', ''RIGHT'', ''OFF''}
          \<longrightarrow> parking_lights self = Inl (ValueError Not_a_valid_member))"
  using assms
  by (simp add: door_lock_state_def parking_lights_def attributes_def backend_parameter_data
      attrs_getitem_data dict_getitem_def)

theorem invalid_literal_raises_witness:
  "door_lock_state (state_with bad_literals) = Inl (ValueError Not_a_valid_member)
   \<and> parking_lights (state_with bad_literals) = Inl (ValueError Not_a_valid_member)"
  using invalid_literal_raises [OF state_with_attrs, of bad_literals "''AJAR''" "''BOTH''"]
  by (simp add: bad_literals_def)

subsection \<open>Parking lights\<close>

text \<open>
  C9. \<^verbatim>\<open>are_parking_lights_on\<close> is \<^verbatim>\<open>None\<close> when \<^verbatim>\<open>parking_lights\<close> is \<^verbatim>\<open>None\<close>, which it is
  when the key \<^verbatim>\<open>parkingLight\<close> is missing; for any other value of \<^verbatim>\<open>parking_lights\<close> it is
  true exactly when that value is not OFF.
\<close>

theorem are_parking_lights_on_spec:
  "(parking_lights self = Inr None \<longrightarrow> are_parking_lights_on self = Inr None)
   \<and> (\<forall>l. parking_lights self = Inr (Some l) \<longrightarrow>
         are_parking_lights_on self = Inr (Some (l \<noteq> OFF)))
   \<and> (\<forall>a. attrs self = Some a \<and> map_of a ''parkingLight'' = None \<longrightarrow>
         parking_lights self = Inr None \<and> are_parking_lights_on self = Inr None)
   \<and> (\<forall>a v l. attrs self = Some a \<and> map_of a ''parkingLight'' = Some v
         \<and> ParkingLightState_of v = Inr l \<longrightarrow>
         parking_lights self = Inr (Some l) \<and> are_parking_lights_on self = Inr (Some (l \<noteq> OFF)))"
  by (simp add: are_parking_lights_on_def parking_lights_def attributes_def backend_parameter_data
      dict_getitem_def)

theorem are_parking_lights_on_spec_witness:
  "parking_lights (state_with []) = Inr None
   \<and> are_parking_lights_on (state_with []) = Inr None
   \<and> parking_lights (state_with left_light) = Inr (Some LEFT)
   \<and> are_parking_lights_on (state_with left_light) = Inr (Some True)"
proof -
  have 1: "parking_lights (state_with []) = Inr None
      \<and> are_parking_lights_on (state_with []) = Inr None"
    using are_parking_lights_on_spec [of "state_with []"]
    by (simp add: state_with_attrs)
  have 2: "parking_lights (state_with left_light) = Inr (Some LEFT)
      \<and> are_parking_lights_on (state_with left_light) = Inr (Some True)"
    using are_parking_lights_on_spec [of "state_with left_light"]
    by (simp add: state_with_attrs left_light_def)
  show ?thesis using 1 2 by simp
qed

subsection \<open>Lids and windows\<close>

lemma hood_open_lids:
  "lids (state_with hood_open) =
     Inr (Some [\<lparr>name = ''hood'', state = OPEN\<rparr>, \<lparr>name = ''trunk'', state = CLOSED\<rparr>])"
  by (simp add: lids_def backend_parameter_def state_with_def hood_open_def LIDS_def
      attrs_contains_def attrs_getitem_def dict_contains_def dict_getitem_def Lid_init_def)

lemma hood_open_windows:
  "windows (state_with hood_open) = Inr (Some [\<lparr>name = ''windowDriverFront'', state = CLOSED\<rparr>])"
  by (simp add: windows_def backend_parameter_def state_with_def hood_open_def WINDOWS_def
      attrs_contains_def attrs_getitem_def dict_contains_def dict_getitem_def Lid_init_def)

text \<open>
  C7. Whatever the lids are, \<^verbatim>\<open>open_lids\<close> is the sublist of \<^verbatim>\<open>lids\<close> whose state is not
  CLOSED, in the same order, and \<^verbatim>\<open>all_lids_closed\<close> is true exactly when \<^verbatim>\<open>open_lids\<close> is
  empty; the same for \<^verbatim>\<open>open_windows\<close> and \<^verbatim>\<open>all_windows_closed\<close> over \<^verbatim>\<open>windows\<close>.
\<close>

theorem all_closed_iff_none_open:
  "(all_lids_closed self = Inr True \<longleftrightarrow> open_lids self = Inr [])
   \<and> (\<forall>ls. lids self = Inr (Some ls) \<longrightarrow>
         open_lids self = Inr (filter (\<lambda>l. state l \<noteq> CLOSED) ls)
       \<and> all_lids_closed self = Inr (filter (\<lambda>l. state l \<noteq> CLOSED) ls = []))
   \<and> (all_windows_closed self = Inr True \<longleftrightarrow> open_windows self = Inr [])
   \<and> (\<forall>ws. windows self = Inr (Some ws) \<longrightarrow>
         open_windows self = Inr (filter (\<lambda>l. state l \<noteq> CLOSED) ws)
       \<and> all_windows_closed self = Inr (filter (\<lambda>l. state l \<noteq> CLOSED) ws = []))"
proof -
  have 1: "all_lids_closed self = Inr True \<longleftrightarrow> open_lids self = Inr []"
    by (cases "open_lids self") (simp_all add: all_lids_closed_def)
  have 2: "all_windows_closed self = Inr True \<longleftrightarrow> open_windows self = Inr []"
    by (cases "open_windows self") (simp_all add: all_windows_closed_def)
  have 3: "\<forall>ls. lids self = Inr (Some ls) \<longrightarrow>
         open_lids self = Inr (filter (\<lambda>l. state l \<noteq> CLOSED) ls)
       \<and> all_lids_closed self = Inr (filter (\<lambda>l. state l \<noteq> CLOSED) ls = [])"
    by (simp add: open_lids_def all_lids_closed_def is_closed_def)
  have 4: "\<forall>ws. windows self = Inr (Some ws) \<longrightarrow>
         open_windows self = Inr (filter (\<lambda>l. state l \<noteq> CLOSED) ws)
       \<and> all_windows_closed self = Inr (filter (\<lambda>l. state l \<noteq> CLOSED) ws = [])"
    by (simp add: open_windows_def all_windows_closed_def is_closed_def)
  show ?thesis using 1 2 3 4 by simp
qed

theorem all_closed_iff_none_open_witness:
  "open_lids (state_with hood_open) = Inr [\<lparr>name = ''hood'', state = OPEN\<rparr>]
   \<and> all_lids_closed (state_with hood_open) = Inr False
   \<and> open_windows (state_with hood_open) = Inr []
   \<and> all_windows_closed (state_with hood_open) = Inr True"
  using all_closed_iff_none_open [of "state_with hood_open"]
  by (simp add: hood_open_lids hood_open_windows)

subsection \<open>Service dates\<close>

lemma below_10:
  "k < 10 \<Longrightarrow>
   k = 0 \<or> k = 1 \<or> k = 2 \<or> k = 3 \<or> k = 4 \<or> k = 5 \<or> k = 6 \<or> k = 7 \<or> k = 8 \<or> k = (9::nat)"
  by arith

lemma digit_val_digit_char: "digit_val (digit_char n) = Some (n mod 10)"
proof -
  have "n mod 10 < 10" by simp
  from below_10[OF this] show ?thesis
    unfolding digit_char_def digit_val_def by (elim disjE) simp_all
qed

lemma month_cases:
  "1 \<le> m \<Longrightarrow> m \<le> 12 \<Longrightarrow>
   m = 1 \<or> m = 2 \<or> m = 3 \<or> m = 4 \<or> m = 5 \<or> m = 6 \<or> m = 7 \<or> m = 8 \<or> m = 9 \<or> m = 10
   \<or> m = 11 \<or> m = (12::nat)"
  by arith

lemma year_digits:
  assumes "(y::nat) \<le> 9999"
  shows "1000 * (y div 1000 mod 10) + 100 * (y div 100 mod 10) + 10 * (y div 10 mod 10)
         + y mod 10 = y"
proof -
  have a: "y = 10 * (y div 10) + y mod 10" by simp
  have b: "y div 10 = 10 * (y div 100) + y div 10 mod 10"
    using div_mult_mod_eq[of "y div 10" 10] by (simp add: div_mult2_eq[symmetric])
  have c: "y div 100 = 10 * (y div 1000) + y div 100 mod 10"
    using div_mult_mod_eq[of "y div 100" 10] by (simp add: div_mult2_eq[symmetric])
  have d: "y div 1000 mod 10 = y div 1000"
    using assms by simp
  show ?thesis using a b c d by linarith
qed

lemma match_Y_year_text:
  assumes "y \<le> 9999"
  shows "match_Y (year_text y @ r) = Some (y, r)"
proof -
  have "match_Y (year_text y @ r) =
      Some (1000 * (y div 1000 mod 10) + 100 * (y div 100 mod 10) + 10 * (y div 10 mod 10)
            + y mod 10, r)"
    by (simp add: year_text_def digit_val_digit_char del: mod_less)
  then show ?thesis by (simp only: year_digits[OF assms])
qed

lemma month_text_simps:
  "month_text (Suc 0) = ''01''" "month_text 2 = ''02''" "month_text 3 = ''03''"
  "month_text 4 = ''04''" "month_text 5 = ''05''" "month_text 6 = ''06''"
  "month_text 7 = ''07''" "month_text 8 = ''08''" "month_text 9 = ''09''"
  "month_text 10 = ''10''" "month_text 11 = ''11''" "month_text 12 = ''12''"
  by (simp_all add: month_text_def digit_char_def)

lemma digit_val_simps:
  "digit_val CHR ''0'' = Some 0" "digit_val CHR ''1'' = Some 1" "digit_val CHR ''2'' = Some 2"
  "digit_val CHR ''3'' = Some 3" "digit_val CHR ''4'' = Some 4" "digit_val CHR ''5'' = Some 5"
  "digit_val CHR ''6'' = Some 6" "digit_val CHR ''7'' = Some 7" "digit_val CHR ''8'' = Some 8"
  "digit_val CHR ''9'' = Some 9" "digit_val CHR ''.'' = None" "digit_val CHR ''-'' = None"
  by (simp_all add: digit_val_def)

text \<open>
  A month of two digits matches \<^verbatim>\<open>%m\<close> whole first; from October on the regular expression
  could fall back to the first digit alone.
\<close>

lemma match_m_month_text:
  assumes "1 \<le> m" "m \<le> 12"
  shows "match_m (month_text m @ r) =
           (m, r) # (if m < 10 then [] else [(1, digit_char m # r)])"
  using month_cases[OF assms]
  by (elim disjE)
     (simp_all add: month_text_simps match_m_def alt_1x_def alt_0x_def alt_x_def
        digit_val_simps digit_char_def)

lemma strptime_Y_m:
  assumes "1 \<le> y" "y \<le> 9999" "1 \<le> m" "m \<le> 12"
  shows "strptime (year_text y @ ''-'' @ month_text m) fmt_Y_m = Inr (first_of_month y m)"
  using assms match_Y_year_text[of y "''-'' @ month_text m"] match_m_month_text[of m "[]"]
  by (simp add: strptime_def fmt_Y_m_def first_of_month_def)

lemma strptime_m_Y:
  assumes "1 \<le> y" "y \<le> 9999" "1 \<le> m" "m \<le> 12"
  shows "strptime (month_text m @ ''.'' @ year_text y) fmt_m_Y = Inr (first_of_month y m)"
  using assms match_Y_year_text[of y "[]"] match_m_month_text[of m "''.'' @ year_text y"]
  by (simp add: strptime_def fmt_m_Y_def first_of_month_def)

lemma match_Y_dot: "match_Y (a # b # CHR ''.'' # d # rest) = None"
  by (simp add: digit_val_simps split: option.splits)

lemma strptime_m_Y_on_Y_m:
  "strptime (month_text m @ ''.'' @ year_text y) fmt_Y_m = Inl (ValueError Bad_time_data)"
  by (simp add: strptime_def fmt_Y_m_def month_text_def year_text_def match_Y_dot
      del: match_Y.simps)

lemma strptime_error: "strptime s fmt = Inl e \<Longrightarrow> e = ValueError Bad_time_data"
  by (auto simp: strptime_def Let_def split: option.splits if_splits)

lemma parse_date_unfold:
  "parse_date s =
     (case strptime s fmt_Y_m of
        Inr d \<Rightarrow> Inr (Some (d\<lparr>dt_day := 1\<rparr>))
      | Inl e \<Rightarrow> (case strptime s fmt_m_Y of
                     Inr d \<Rightarrow> Inr (Some (d\<lparr>dt_day := 1\<rparr>))
                   | Inl e' \<Rightarrow> Inr None))"
  by (auto simp: parse_date_def split: sum.splits exn.splits dest: strptime_error)

lemma texts_2018_02: "year_text 2018 = ''2018''" "month_text 2 = ''02''"
  by (simp_all add: year_text_def month_text_def digit_char_def)

lemma strptime_soon:
  "strptime ''soon'' fmt_Y_m = Inl (ValueError Bad_time_data)"
  "strptime ''soon'' fmt_m_Y = Inl (ValueError Bad_time_data)"
  by (simp_all add: strptime_def fmt_Y_m_def fmt_m_Y_def match_m_def alt_1x_def alt_0x_def
      alt_x_def digit_val_def)

text \<open>
  C4. \<^verbatim>\<open>_parse_date\<close> tries \<^verbatim>\<open>%Y-%m\<close>, then \<^verbatim>\<open>%m.%Y\<close>. A month from 1 to 12 of a year from 1
  to 9999, written \<^verbatim>\<open>YYYY-MM\<close> or \<^verbatim>\<open>MM.YYYY\<close>, parses to the first day of that month, so
  "2018-02" and "02.2018" both give 1 February 2018. Whatever parses comes back with day 1;
  a string that fits neither format gives \<^verbatim>\<open>None\<close>; and no string makes it raise.
\<close>

theorem parse_date_spec:
  "(\<forall>y m. 1 \<le> y \<and> y \<le> 9999 \<and> 1 \<le> m \<and> m \<le> 12 \<longrightarrow>
      parse_date (year_text y @ ''-'' @ month_text m) = Inr (Some (first_of_month y m)) \<and>
      parse_date (month_text m @ ''.'' @ year_text y) = Inr (Some (first_of_month y m)))
   \<and> (\<forall>s d. strptime s fmt_Y_m = Inr d \<longrightarrow> parse_date s = Inr (Some (d\<lparr>dt_day := 1\<rparr>)))
   \<and> (\<forall>s d e. strptime s fmt_Y_m = Inl e \<and> strptime s fmt_m_Y = Inr d \<longrightarrow>
         parse_date s = Inr (Some (d\<lparr>dt_day := 1\<rparr>)))
   \<and> (\<forall>s e e'. strptime s fmt_Y_m = Inl e \<and> strptime s fmt_m_Y = Inl e' \<longrightarrow>
         parse_date s = Inr None)
   \<and> (\<forall>s d. parse_date s = Inr (Some d) \<longrightarrow> dt_day d = 1)
   \<and> (\<forall>s e. parse_date s \<noteq> Inl e)"
proof (intro conjI allI impI)
  fix y m :: nat
  assume h: "1 \<le> y \<and> y \<le> 9999 \<and> 1 \<le> m \<and> m \<le> 12"
  then have r: "1 \<le> y" "y \<le> 9999" "1 \<le> m" "m \<le> 12" by simp_all
  show "parse_date (year_text y @ ''-'' @ month_text m) = Inr (Some (first_of_month y m))"
    using strptime_Y_m[OF r] by (simp add: parse_date_unfold first_of_month_def)
  show "parse_date (month_text m @ ''.'' @ year_text y) = Inr (Some (first_of_month y m))"
    using strptime_m_Y[OF r] strptime_m_Y_on_Y_m[of m y]
    by (simp add: parse_date_unfold first_of_month_def)
next
  fix s d assume "strptime s fmt_Y_m = Inr d"
  then show "parse_date s = Inr (Some (d\<lparr>dt_day := 1\<rparr>))" by (simp add: parse_date_unfold)
next
  fix s d e assume "strptime s fmt_Y_m = Inl e \<and> strptime s fmt_m_Y = Inr d"
  then show "parse_date s = Inr (Some (d\<lparr>dt_day := 1\<rparr>))" by (simp add: parse_date_unfold)
next
  fix s e e' assume "strptime s fmt_Y_m = Inl e \<and> strptime s fmt_m_Y = Inl e'"
  then show "parse_date s = Inr None" by (simp add: parse_date_unfold)
next
  fix s d assume "parse_date s = Inr (Some d)"
  then show "dt_day d = 1" by (auto simp: parse_date_unfold split: sum.splits)
next
  fix s e show "parse_date s \<noteq> Inl e" by (simp add: parse_date_unfold split: sum.splits)
qed

theorem parse_date_spec_witness:
  "parse_date ''2018-02'' = Inr (Some (first_of_month 2018 2))
   \<and> parse_date ''02.2018'' = Inr (Some (first_of_month 2018 2))
   \<and> dt_day (first_of_month 2018 2) = 1
   \<and> parse_date ''soon'' = Inr None"
proof -
  have a: "\<forall>y m. 1 \<le> y \<and> y \<le> 9999 \<and> 1 \<le> m \<and> m \<le> 12 \<longrightarrow>
      parse_date (year_text y @ ''-'' @ month_text m) = Inr (Some (first_of_month y m)) \<and>
      parse_date (month_text m @ ''.'' @ year_text y) = Inr (Some (first_of_month y m))"
    and e: "\<forall>s e e'. strptime s fmt_Y_m = Inl e \<and> strptime s fmt_m_Y = Inl e' \<longrightarrow>
         parse_date s = Inr None"
    and f: "\<forall>s d. parse_date s = Inr (Some d) \<longrightarrow> dt_day d = 1"
    using parse_date_spec by blast+
  have 1: "parse_date ''2018-02'' = Inr (Some (first_of_month 2018 2))
         \<and> parse_date ''02.2018'' = Inr (Some (first_of_month 2018 2))"
    using a[rule_format, of 2018 2] by (simp add: texts_2018_02)
  have 2: "dt_day (first_of_month 2018 2) = 1"
    using f 1 by blast
  have 3: "parse_date ''soon'' = Inr None"
    using e strptime_soon by blast
  show ?thesis using 1 2 3 by simp
qed

subsection \<open>Missing keys\<close>

lemma build_reports_first_failure:
  assumes "\<forall>y\<in>set pre. \<exists>r. ConditionBasedServiceReport_init py y = Inr r"
    and "ConditionBasedServiceReport_init py x = Inl e"
  shows "build_reports py (pre @ x # rest) = Inl e"
  using assms by (induction pre) auto

lemma parse_date_returns: "\<exists>r. parse_date s = Inr r"
  by (simp add: parse_date_unfold split: sum.splits)

text \<open>
  The constructor of a report meets a missing key before anything else fails: the keys are
  read in the order \<^verbatim>\<open>cbsDueDate\<close>, \<^verbatim>\<open>cbsState\<close>, \<^verbatim>\<open>cbsType\<close>, \<^verbatim>\<open>cbsDescription\<close>, with the
  optional \<^verbatim>\<open>cbsRemainingMileage\<close> before the last.
\<close>

lemma report_init_missing_key:
  assumes "map_of d ''cbsDueDate'' = None
     \<or> (\<exists>s. map_of d ''cbsDueDate'' = Some (JStr s)) \<and>
       (map_of d ''cbsState'' = None
        \<or> (\<exists>sv st. map_of d ''cbsState'' = Some sv \<and> ConditionBasedServiceStatus_of sv = Inr st) \<and>
          (map_of d ''cbsType'' = None
           \<or> (map_of d ''cbsRemainingMileage'' = None
               \<or> (\<exists>rm i. map_of d ''cbsRemainingMileage'' = Some rm \<and> py_int py rm = Inr i)) \<and>
             map_of d ''cbsDescription'' = None))"
  shows "\<exists>k. ConditionBasedServiceReport_init py (JObj d) = Inl (KeyError k)"
proof -
  consider (due) "map_of d ''cbsDueDate'' = None"
    | (st) s where "map_of d ''cbsDueDate'' = Some (JStr s)" "map_of d ''cbsState'' = None"
    | (ty) s sv st where "map_of d ''cbsDueDate'' = Some (JStr s)"
        "map_of d ''cbsState'' = Some sv" "ConditionBasedServiceStatus_of sv = Inr st"
        "map_of d ''cbsType'' = None"
    | (de1) s sv st where "map_of d ''cbsDueDate'' = Some (JStr s)"
        "map_of d ''cbsState'' = Some sv" "ConditionBasedServiceStatus_of sv = Inr st"
        "map_of d ''cbsType'' \<noteq> None" "map_of d ''cbsRemainingMileage'' = None"
        "map_of d ''cbsDescription'' = None"
    | (de2) s sv st rm i where "map_of d ''cbsDueDate'' = Some (JStr s)"
        "map_of d ''cbsState'' = Some sv" "ConditionBasedServiceStatus_of sv = Inr st"
        "map_of d ''cbsType'' \<noteq> None" "map_of d ''cbsRemainingMileage'' = Some rm"
        "py_int py rm = Inr i" "map_of d ''cbsDescription'' = None"
    using assms by (cases "map_of d ''cbsType''") auto
  then show ?thesis
  proof cases
    case due
    then show ?thesis
      by (simp add: ConditionBasedServiceReport_init_def dict_getitem_def)
  next
    case st
    then show ?thesis
      using parse_date_returns[of s]
      by (auto simp: ConditionBasedServiceReport_init_def dict_getitem_def)
  next
    case ty
    then show ?thesis
      using parse_date_returns[of s]
      by (auto simp: ConditionBasedServiceReport_init_def dict_getitem_def)
  next
    case de1
    then show ?thesis
      using parse_date_returns[of s]
      by (auto simp: ConditionBasedServiceReport_init_def dict_getitem_def dict_contains_def)
  next
    case de2
    then show ?thesis
      using parse_date_returns[of s]
      by (auto simp: ConditionBasedServiceReport_init_def dict_getitem_def dict_contains_def)
  qed
qed

text \<open>
  The loop of \<^verbatim>\<open>lids\<close> and \<^verbatim>\<open>windows\<close> on data: it appends the lids that are present, or
  raises the \<^verbatim>\<open>ValueError\<close> of \<^verbatim>\<open>LidState\<close> at the first state that is no member.
\<close>

lemma lids_loop_data:
  assumes "attrs self = Some a"
  shows "lids_loop self names acc =
           (if valid_lid_states a names then Inr (acc @ present_lids a names)
            else Inl (ValueError Not_a_valid_member))"
proof (induction names arbitrary: acc)
  case Nil
  show ?case by (simp add: valid_lid_states_def present_lids_def)
next
  case (Cons n names)
  have invalid: "LidState_of v = Inl e \<Longrightarrow> e = ValueError Not_a_valid_member" for v :: "'a json" and e
    by (cases v) (auto split: if_splits)
  show ?case
  proof (cases "map_of a n")
    case None
    then show ?thesis
      using assms Cons.IH[of acc]
      by (simp add: attrs_contains_def dict_contains_def valid_lid_states_def present_lids_def)
  next
    case (Some v)
    show ?thesis
    proof (cases "LidState_of v")
      case (Inl e)
      then show ?thesis
        using assms Some invalid[OF Inl]
        by (simp add: attrs_contains_def dict_contains_def attrs_getitem_def dict_getitem_def
            Lid_init_def valid_lid_states_def)
    next
      case (Inr st)
      then show ?thesis
        using assms Some Cons.IH[of "acc @ [\<lparr>name = n, state = st\<rparr>]"]
        by (simp add: attrs_contains_def dict_contains_def attrs_getitem_def dict_getitem_def
            Lid_init_def valid_lid_states_def present_lids_def)
    qed
  qed
qed

lemma present_lids_none:
  "\<forall>n\<in>set names. map_of a n = None \<Longrightarrow> valid_lid_states a names \<and> present_lids a names = []"
  by (induction names) (simp_all add: valid_lid_states_def present_lids_def)

text \<open>
  C2, as the code has it. With data present, each decorated property that reads one key
  (\<^verbatim>\<open>timestamp\<close>, \<^verbatim>\<open>gps_position\<close>, \<^verbatim>\<open>is_vehicle_tracking_enabled\<close>, \<^verbatim>\<open>mileage\<close>,
  \<^verbatim>\<open>remaining_range_fuel\<close>, \<^verbatim>\<open>remaining_fuel\<close>, \<^verbatim>\<open>door_lock_state\<close>, \<^verbatim>\<open>last_update_reason\<close>,
  \<^verbatim>\<open>condition_based_services\<close>, \<^verbatim>\<open>parking_lights\<close>) returns \<^verbatim>\<open>None\<close> when that key is missing.
  For a nested key the same holds when its lookup is the first thing that fails: a position
  object without \<^verbatim>\<open>status\<close> (for \<^verbatim>\<open>gps_position\<close> on a state that has a vehicle); with status
  "OK" and without \<^verbatim>\<open>lat\<close>; with a \<^verbatim>\<open>lat\<close> that converts and without \<^verbatim>\<open>lon\<close>; after services
  that could be built, a service without \<^verbatim>\<open>cbsDueDate\<close>, or with a date string and without
  \<^verbatim>\<open>cbsState\<close>, or with a valid state too and without \<^verbatim>\<open>cbsType\<close>, or with a type too, a
  remaining mileage that is absent or converts, and without \<^verbatim>\<open>cbsDescription\<close>. \<^verbatim>\<open>lids\<close> and
  \<^verbatim>\<open>windows\<close> never return \<^verbatim>\<open>None\<close>: they pass over the names that are missing and return
  the lids that are present, in the order of the fixed list (the empty list when all are
  missing), or raise for a state that is no member of \<^verbatim>\<open>LidState\<close>.
\<close>

theorem missing_key_is_None:
  assumes "attrs self = Some a"
  shows "(map_of a ''updateTime'' = None \<longrightarrow> timestamp py self = Inr None)
   \<and> (map_of a ''position'' = None \<longrightarrow>
        is_vehicle_tracking_enabled self = Inr None \<and> gps_position py self = Inr None)
   \<and> (\<forall>p. map_of a ''position'' = Some (JObj p) \<and> map_of p ''status'' = None \<longrightarrow>
        is_vehicle_tracking_enabled self = Inr None
        \<and> (the_vehicle self \<noteq> None \<longrightarrow> gps_position py self = Inr None))
   \<and> (\<forall>p. map_of a ''position'' = Some (JObj p) \<and> map_of p ''status'' = Some (JStr ''OK'')
          \<and> map_of p ''lat'' = None \<longrightarrow> gps_position py self = Inr None)
   \<and> (\<forall>p la x. map_of a ''position'' = Some (JObj p) \<and> map_of p ''status'' = Some (JStr ''OK'')
          \<and> map_of p ''lat'' = Some la \<and> py_float py la = Inr x \<and> map_of p ''lon'' = None \<longrightarrow>
        gps_position py self = Inr None)
   \<and> (map_of a ''mileage'' = None \<longrightarrow> mileage py self = Inr None)
   \<and> (map_of a ''remainingRangeFuel'' = None \<longrightarrow> remaining_range_fuel py self = Inr None)
   \<and> (map_of a ''remainingFuel'' = None \<longrightarrow> remaining_fuel py self = Inr None)
   \<and> (map_of a ''doorLockState'' = None \<longrightarrow> door_lock_state self = Inr None)
   \<and> (map_of a ''updateReason'' = None \<longrightarrow> last_update_reason self = Inr None)
   \<and> (map_of a ''cbsData'' = None \<longrightarrow> condition_based_services py self = Inr None)
   \<and> (\<forall>pre d rest. map_of a ''cbsData'' = Some (JArr (pre @ JObj d # rest))
          \<and> (\<forall>y\<in>set pre. \<exists>r. ConditionBasedServiceReport_init py y = Inr r)
          \<and> (map_of d ''cbsDueDate'' = None
             \<or> (\<exists>s. map_of d ''cbsDueDate'' = Some (JStr s)) \<and>
               (map_of d ''cbsState'' = None
                \<or> (\<exists>sv st. map_of d ''cbsState'' = Some sv
                            \<and> ConditionBasedServiceStatus_of sv = Inr st) \<and>
                  (map_of d ''cbsType'' = None
                   \<or> (map_of d ''cbsRemainingMileage'' = None
                       \<or> (\<exists>rm i. map_of d ''cbsRemainingMileage'' = Some rm
                                  \<and> py_int py rm = Inr i)) \<and>
                     map_of d ''cbsDescription'' = None))) \<longrightarrow>
        condition_based_services py self = Inr None)
   \<and> (map_of a ''parkingLight'' = None \<longrightarrow> parking_lights self = Inr None)
   \<and> lids self \<noteq> Inr None
   \<and> (valid_lid_states a LIDS \<longrightarrow> lids self = Inr (Some (present_lids a LIDS)))
   \<and> ((\<forall>n\<in>set LIDS. map_of a n = None) \<longrightarrow> lids self = Inr (Some []))
   \<and> windows self \<noteq> Inr None
   \<and> (valid_lid_states a WINDOWS \<longrightarrow> windows self = Inr (Some (present_lids a WINDOWS)))
   \<and> ((\<forall>n\<in>set WINDOWS. map_of a n = None) \<longrightarrow> windows self = Inr (Some []))"
proof -
  note base = backend_parameter_data[OF assms] attrs_getitem_data[OF assms]
  note enabled = is_vehicle_tracking_enabled_data[OF assms]
  have 1: "map_of a ''updateTime'' = None \<longrightarrow> timestamp py self = Inr None"
    by (simp add: timestamp_def base)
  have 2: "map_of a ''position'' = None \<longrightarrow>
        is_vehicle_tracking_enabled self = Inr None \<and> gps_position py self = Inr None"
    by (simp add: enabled gps_position_def base)
  have 3: "\<forall>p. map_of a ''position'' = Some (JObj p) \<and> map_of p ''status'' = None \<longrightarrow>
        is_vehicle_tracking_enabled self = Inr None
        \<and> (the_vehicle self \<noteq> None \<longrightarrow> gps_position py self = Inr None)"
    by (auto simp: gps_position_def base enabled dict_getitem_def vehicle_vin_def)
  have 4: "\<forall>p. map_of a ''position'' = Some (JObj p) \<and> map_of p ''status'' = Some (JStr ''OK'')
          \<and> map_of p ''lat'' = None \<longrightarrow> gps_position py self = Inr None"
    by (simp add: gps_position_def base enabled dict_getitem_def)
  have 5: "\<forall>p la x. map_of a ''position'' = Some (JObj p)
          \<and> map_of p ''status'' = Some (JStr ''OK'')
          \<and> map_of p ''lat'' = Some la \<and> py_float py la = Inr x \<and> map_of p ''lon'' = None \<longrightarrow>
        gps_position py self = Inr None"
    by (simp add: gps_position_def base enabled dict_getitem_def)
  have 6: "map_of a ''mileage'' = None \<longrightarrow> mileage py self = Inr None"
    by (simp add: mileage_def float_attribute_def base)
  have 7: "map_of a ''remainingRangeFuel'' = None \<longrightarrow> remaining_range_fuel py self = Inr None"
    by (simp add: remaining_range_fuel_def float_attribute_def base)
  have 8: "map_of a ''remainingFuel'' = None \<longrightarrow> remaining_fuel py self = Inr None"
    by (simp add: remaining_fuel_def float_attribute_def base)
  have 9: "map_of a ''doorLockState'' = None \<longrightarrow> door_lock_state self = Inr None"
    by (simp add: door_lock_state_def base)
  have 10: "map_of a ''updateReason'' = None \<longrightarrow> last_update_reason self = Inr None"
    by (simp add: last_update_reason_def base)
  have 11: "map_of a ''cbsData'' = None \<longrightarrow> condition_based_services py self = Inr None"
    by (simp add: condition_based_services_def base)
  have 12: "\<forall>pre d rest. map_of a ''cbsData'' = Some (JArr (pre @ JObj d # rest))
          \<and> (\<forall>y\<in>set pre. \<exists>r. ConditionBasedServiceReport_init py y = Inr r)
          \<and> (map_of d ''cbsDueDate'' = None
             \<or> (\<exists>s. map_of d ''cbsDueDate'' = Some (JStr s)) \<and>
               (map_of d ''cbsState'' = None
                \<or> (\<exists>sv st. map_of d ''cbsState'' = Some sv
                            \<and> ConditionBasedServiceStatus_of sv = Inr st) \<and>
                  (map_of d ''cbsType'' = None
                   \<or> (map_of d ''cbsRemainingMileage'' = None
                       \<or> (\<exists>rm i. map_of d ''cbsRemainingMileage'' = Some rm
                                  \<and> py_int py rm = Inr i)) \<and>
                     map_of d ''cbsDescription'' = None))) \<longrightarrow>
        condition_based_services py self = Inr None"
  proof (intro allI impI, elim conjE)
    fix pre d rest
    assume data: "map_of a ''cbsData'' = Some (JArr (pre @ JObj d # rest))"
      and pre: "\<forall>y\<in>set pre. \<exists>r. ConditionBasedServiceReport_init py y = Inr r"
      and missing: "map_of d ''cbsDueDate'' = None
             \<or> (\<exists>s. map_of d ''cbsDueDate'' = Some (JStr s)) \<and>
               (map_of d ''cbsState'' = None
                \<or> (\<exists>sv st. map_of d ''cbsState'' = Some sv
                            \<and> ConditionBasedServiceStatus_of sv = Inr st) \<and>
                  (map_of d ''cbsType'' = None
                   \<or> (map_of d ''cbsRemainingMileage'' = None
                       \<or> (\<exists>rm i. map_of d ''cbsRemainingMileage'' = Some rm
                                  \<and> py_int py rm = Inr i)) \<and>
                     map_of d ''cbsDescription'' = None))"
    from report_init_missing_key[OF missing] obtain k
      where k: "ConditionBasedServiceReport_init py (JObj d) = Inl (KeyError k)" by blast
    show "condition_based_services py self = Inr None"
      using data build_reports_first_failure[OF pre k, of rest]
      by (simp add: condition_based_services_def base)
  qed
  have 13: "map_of a ''parkingLight'' = None \<longrightarrow> parking_lights self = Inr None"
    by (simp add: parking_lights_def attributes_def base assms dict_getitem_def)
  have l: "lids self = (if valid_lid_states a LIDS then Inr (Some (present_lids a LIDS))
                        else Inl (ValueError Not_a_valid_member))"
    by (simp add: lids_def base lids_loop_data[OF assms])
  have w: "windows self = (if valid_lid_states a WINDOWS then Inr (Some (present_lids a WINDOWS))
                        else Inl (ValueError Not_a_valid_member))"
    by (simp add: windows_def base lids_loop_data[OF assms])
  have 14: "lids self \<noteq> Inr None" by (simp add: l)
  have 15: "valid_lid_states a LIDS \<longrightarrow> lids self = Inr (Some (present_lids a LIDS))"
    by (simp add: l)
  have 16: "(\<forall>n\<in>set LIDS. map_of a n = None) \<longrightarrow> lids self = Inr (Some [])"
    using present_lids_none[of LIDS a] by (simp add: l)
  have 17: "windows self \<noteq> Inr None" by (simp add: w)
  have 18: "valid_lid_states a WINDOWS \<longrightarrow> windows self = Inr (Some (present_lids a WINDOWS))"
    by (simp add: w)
  have 19: "(\<forall>n\<in>set WINDOWS. map_of a n = None) \<longrightarrow> windows self = Inr (Some [])"
    using present_lids_none[of WINDOWS a] by (simp add: w)
  show ?thesis
    using 1 2 3 4 5 6 7 8 9 10 11 12 13 14 15 16 17 18 19 by (intro conjI)
qed

theorem missing_key_is_None_witness:
  "timestamp toy_builtins (state_with []) = Inr None
   \<and> is_vehicle_tracking_enabled (state_with []) = Inr None
   \<and> gps_position toy_builtins (state_with []) = Inr None
   \<and> mileage toy_builtins (state_with []) = Inr None
   \<and> remaining_range_fuel toy_builtins (state_with []) = Inr None
   \<and> remaining_fuel toy_builtins (state_with []) = Inr None
   \<and> door_lock_state (state_with []) = Inr None
   \<and> last_update_reason (state_with []) = Inr None
   \<and> condition_based_services toy_builtins (state_with []) = Inr None
   \<and> parking_lights (state_with []) = Inr None
   \<and> lids (state_with []) = Inr (Some [])
   \<and> windows (state_with []) = Inr (Some [])
   \<and> is_vehicle_tracking_enabled (state_with position_without_status) = Inr None
   \<and> gps_position toy_builtins (state_with position_without_status) = Inr None
   \<and> gps_position toy_builtins (state_with position_without_lat) = Inr None
   \<and> gps_position toy_builtins (state_with position_without_lon) = Inr None
   \<and> condition_based_services toy_builtins (state_with service_without_due_date) = Inr None
   \<and> condition_based_services toy_builtins (state_with service_without_state) = Inr None
   \<and> condition_based_services toy_builtins (state_with service_without_type) = Inr None
   \<and> condition_based_services toy_builtins (state_with service_without_description) = Inr None
   \<and> lids (state_with hood_open)
        = Inr (Some [\<lparr>name = ''hood'', state = OPEN\<rparr>, \<lparr>name = ''trunk'', state = CLOSED\<rparr>])
   \<and> windows (state_with hood_open)
        = Inr (Some [\<lparr>name = ''windowDriverFront'', state = CLOSED\<rparr>])"
proof -
  have v: "the_vehicle (state_with b) \<noteq> None" for b
    by (simp add: state_with_def)
  have 1: "timestamp toy_builtins (state_with []) = Inr None
   \<and> is_vehicle_tracking_enabled (state_with []) = Inr None
   \<and> gps_position toy_builtins (state_with []) = Inr None
   \<and> mileage toy_builtins (state_with []) = Inr None
   \<and> remaining_range_fuel toy_builtins (state_with []) = Inr None
   \<and> remaining_fuel toy_builtins (state_with []) = Inr None
   \<and> door_lock_state (state_with []) = Inr None
   \<and> last_update_reason (state_with []) = Inr None
   \<and> condition_based_services toy_builtins (state_with []) = Inr None
   \<and> parking_lights (state_with []) = Inr None
   \<and> lids (state_with []) = Inr (Some [])
   \<and> windows (state_with []) = Inr (Some [])"
    using missing_key_is_None [OF state_with_attrs, of "[]" toy_builtins] by simp
  have 2: "is_vehicle_tracking_enabled (state_with position_without_status) = Inr None
   \<and> gps_position toy_builtins (state_with position_without_status) = Inr None"
    using missing_key_is_None [OF state_with_attrs, of position_without_status toy_builtins] v
    by (simp add: position_without_status_def)
  have 3: "gps_position toy_builtins (state_with position_without_lat) = Inr None"
    using missing_key_is_None [OF state_with_attrs, of position_without_lat toy_builtins]
    by (simp add: position_without_lat_def)
  have 4: "gps_position toy_builtins (state_with position_without_lon) = Inr None"
    using missing_key_is_None [OF state_with_attrs, of position_without_lon toy_builtins]
    by (simp add: position_without_lon_def toy_builtins_def)
  have services: "condition_based_services toy_builtins (state_with a) = Inr None"
    if "map_of a ''cbsData'' = Some (JArr ([] @ JObj d # []))"
      and "map_of d ''cbsDueDate'' = None
             \<or> (\<exists>s. map_of d ''cbsDueDate'' = Some (JStr s)) \<and>
               (map_of d ''cbsState'' = None
                \<or> (\<exists>sv st. map_of d ''cbsState'' = Some sv
                            \<and> ConditionBasedServiceStatus_of sv = Inr st) \<and>
                  (map_of d ''cbsType'' = None
                   \<or> (map_of d ''cbsRemainingMileage'' = None
                       \<or> (\<exists>rm i. map_of d ''cbsRemainingMileage'' = Some rm
                                  \<and> py_int toy_builtins rm = Inr i)) \<and>
                     map_of d ''cbsDescription'' = None))" for a d
  proof -
    note all_conjuncts = missing_key_is_None [OF state_with_attrs, of a toy_builtins]
    note nested = all_conjuncts [THEN conjunct2, THEN conjunct2, THEN conjunct2,
        THEN conjunct2, THEN conjunct2, THEN conjunct2, THEN conjunct2, THEN conjunct2,
        THEN conjunct2, THEN conjunct2, THEN conjunct2, THEN conjunct1]
    show ?thesis
      by (rule nested [rule_format, of "[]" d "[]"]) (intro conjI, rule that(1), simp, rule that(2))
  qed
  have 5: "condition_based_services toy_builtins (state_with service_without_due_date) = Inr None"
    by (rule services[where d = "[(''cbsState'', JStr ''OK''), (''cbsType'', JStr ''OIL''),
          (''cbsDescription'', JStr ''Next oil change'')]"])
       (simp_all add: service_without_due_date_def)
  have 6: "condition_based_services toy_builtins (state_with service_without_state) = Inr None"
    by (rule services[where d = "[(''cbsDueDate'', JStr ''2018-02''), (''cbsType'', JStr ''OIL''),
          (''cbsDescription'', JStr ''Next oil change'')]"])
       (simp_all add: service_without_state_def)
  have 7: "condition_based_services toy_builtins (state_with service_without_type) = Inr None"
    by (rule services[where d = "[(''cbsDueDate'', JStr ''2018-02''), (''cbsState'', JStr ''OK''),
          (''cbsDescription'', JStr ''Next oil change'')]"])
       (simp_all add: service_without_type_def)
  have 8: "condition_based_services toy_builtins (state_with service_without_description)
      = Inr None"
    by (rule services[where d = "[(''cbsDueDate'', JStr ''2018-02''), (''cbsState'', JStr ''OK''),
          (''cbsType'', JStr ''OIL''), (''cbsRemainingMileage'', JInt 12000)]"])
       (simp_all add: service_without_description_def)
  have 9: "lids (state_with hood_open)
        = Inr (Some [\<lparr>name = ''hood'', state = OPEN\<rparr>, \<lparr>name = ''trunk'', state = CLOSED\<rparr>])
      \<and> windows (state_with hood_open)
        = Inr (Some [\<lparr>name = ''windowDriverFront'', state = CLOSED\<rparr>])"
    using missing_key_is_None [OF state_with_attrs, of hood_open toy_builtins]
    by (simp add: hood_open_def valid_lid_states_def present_lids_def LIDS_def WINDOWS_def)
  show ?thesis using 1 2 3 4 5 6 7 8 9 by simp
qed

text \<open>
  C2 as it is stated fails for \<^verbatim>\<open>lids\<close>: on data without any of the lids' keys it returns the
  empty list. It also fails for a nested key whose lookup is not reached: with status "OK",
  a \<^verbatim>\<open>lat\<close> that is no number and no \<^verbatim>\<open>lon\<close>, the \<^verbatim>\<open>ValueError\<close> of \<^verbatim>\<open>float\<close> leaves
  \<^verbatim>\<open>gps_position\<close>; and on a state built without a vehicle, a position without \<^verbatim>\<open>status\<close>
  makes the warning read \<^verbatim>\<open>vin\<close> from \<^verbatim>\<open>None\<close> before \<^verbatim>\<open>pos['status']\<close> is looked up.
\<close>

theorem missing_key_counterexample:
  "attrs (state_with []) = Some []
   \<and> map_of ([] :: int dict) ''hood'' = None
   \<and> lids (state_with []) = Inr (Some [])
   \<and> lids (state_with []) \<noteq> Inr None
   \<and> attrs (state_with position_lat_no_number) = Some position_lat_no_number
   \<and> map_of position_lat_no_number ''position''
        = Some (JObj [(''lat'', JStr ''north''), (''status'', JStr ''OK'')])
   \<and> map_of [(''lat'', JStr ''north''), (''status'', JStr ''OK'' :: int json)] ''lon'' = None
   \<and> gps_position toy_builtins (state_with position_lat_no_number)
        = Inl (ValueError Bad_number)
   \<and> attrs (state_without_vehicle position_without_status) = Some position_without_status
   \<and> map_of position_without_status ''position''
        = Some (JObj [(''lat'', JInt (-34)), (''lon'', JInt 25)])
   \<and> map_of [(''lat'', JInt (-34)), (''lon'', JInt 25 :: int json)] ''status'' = None
   \<and> gps_position toy_builtins (state_without_vehicle position_without_status)
        = Inl (AttributeError ''vin'')"
  by (simp add: state_with_def state_without_vehicle_def lids_def backend_parameter_def LIDS_def
      attrs_contains_def dict_contains_def position_lat_no_number_def
      position_without_status_def gps_position_def is_vehicle_tracking_enabled_def
      attrs_getitem_def dict_getitem_def toy_builtins_def vehicle_vin_def)

end
